theory Spec2Isabelle
  imports Main "HOL-Library.Sublist" "HOL-Library.Monad_Syntax"
begin

section \<open>JavaScript values and the built-ins the server calls\<close>

text \<open>
  A request body is whatever \<^verbatim>\<open>req.json()\<close> returns: a JSON value. Strings are byte
  strings (UTF-8). A number is carried by the text that \<^verbatim>\<open>String(n)\<close> gives for it, which
  is all the handlers can observe of a number: \<^verbatim>\<open>String\<close> returns that text and
  \<^verbatim>\<open>Boolean\<close> is false for zero (text \<^verbatim>\<open>0\<close>, also for negative zero) and for NaN.
  An object is the list of its own properties.
\<close>

datatype jsval =
    JNull
  | JBool bool
  | JNum string
  | JStr string
  | JArr "jsval list"
  | JObj "(string \<times> jsval) list"

datatype exn = TypeError | InvalidCharacterError

text \<open>\<^verbatim>\<open>v?.k\<close>: the property of an object, undefined (\<open>None\<close>) on null and on every
  other JSON value (none of the keys read here lives on a prototype).\<close>

fun get_prop :: "jsval \<Rightarrow> string \<Rightarrow> jsval option" where
  "get_prop (JObj kvs) k = map_of kvs k"
| "get_prop _ k = None"

text \<open>\<^verbatim>\<open>v ?? d\<close>: the default replaces undefined and null only.\<close>

fun nullish :: "jsval option \<Rightarrow> jsval \<Rightarrow> jsval" where
  "nullish None d = d"
| "nullish (Some JNull) d = d"
| "nullish (Some v) d = v"

text \<open>\<^verbatim>\<open>typeof v === "string" ? f(v) : d\<close> and the same test for a boolean.\<close>

definition if_string :: "jsval option \<Rightarrow> (string \<Rightarrow> 'a) \<Rightarrow> 'a \<Rightarrow> 'a" where
  "if_string v f d = (case v of Some (JStr t) \<Rightarrow> f t | _ \<Rightarrow> d)"

definition if_boolean :: "jsval option \<Rightarrow> (bool \<Rightarrow> 'a) \<Rightarrow> 'a \<Rightarrow> 'a" where
  "if_boolean v f d = (case v of Some (JBool b) \<Rightarrow> f b | _ \<Rightarrow> d)"

fun join :: "string \<Rightarrow> string list \<Rightarrow> string" where
  "join sep [] = []"
| "join sep [x] = x"
| "join sep (x # y # ys) = x @ sep @ join sep (y # ys)"

text \<open>\<^verbatim>\<open>String(v)\<close>. An array joins its elements with commas, null elements as the empty
  string. An object without an own \<^verbatim>\<open>toString\<close> property inherits
  \<^verbatim>\<open>Object.prototype.toString\<close>; with one (a JSON value, so not callable) the
  conversion throws a TypeError.\<close>

fun js_String :: "jsval \<Rightarrow> exn + string"
  and js_String_elems :: "jsval list \<Rightarrow> exn + string list" where
  "js_String JNull = Inr ''null''"
| "js_String (JBool b) = Inr (if b then ''true'' else ''false'')"
| "js_String (JNum s) = Inr s"
| "js_String (JStr s) = Inr s"
| "js_String (JArr xs) =
     (case js_String_elems xs of Inl e \<Rightarrow> Inl e | Inr ss \<Rightarrow> Inr (join '','' ss))"
| "js_String (JObj kvs) =
     (if map_of kvs ''toString'' \<noteq> None then Inl TypeError else Inr ''[object Object]'')"
| "js_String_elems [] = Inr []"
| "js_String_elems (x # xs) =
     (case (if x = JNull then Inr [] else js_String x) of
        Inl e \<Rightarrow> Inl e
      | Inr s \<Rightarrow> (case js_String_elems xs of Inl e \<Rightarrow> Inl e | Inr ss \<Rightarrow> Inr (s # ss)))"

text \<open>\<^verbatim>\<open>Boolean(v)\<close>: false for null, false, zero, NaN and the empty string.\<close>

fun js_Boolean :: "jsval \<Rightarrow> bool" where
  "js_Boolean JNull = False"
| "js_Boolean (JBool b) = b"
| "js_Boolean (JNum s) = (s \<noteq> ''0'' \<and> s \<noteq> ''NaN'')"
| "js_Boolean (JStr s) = (s \<noteq> [])"
| "js_Boolean (JArr xs) = True"
| "js_Boolean (JObj kvs) = True"

text \<open>The white space and line terminators that \<^verbatim>\<open>trim\<close> removes, in UTF-8: U+0009 to
  U+000D, U+0020, U+00A0, U+1680, U+2000 to U+200A, U+2028, U+2029, U+202F, U+205F, U+3000
  and U+FEFF.\<close>

definition js_whitespace :: "string list" where
  "js_whitespace =
    [[CHR 0x09], [CHR 0x0A], [CHR 0x0B], [CHR 0x0C], [CHR 0x0D], [CHR 0x20],
     [CHR 0xC2, CHR 0xA0],
     [CHR 0xE1, CHR 0x9A, CHR 0x80],
     [CHR 0xE2, CHR 0x80, CHR 0x80], [CHR 0xE2, CHR 0x80, CHR 0x81],
     [CHR 0xE2, CHR 0x80, CHR 0x82], [CHR 0xE2, CHR 0x80, CHR 0x83],
     [CHR 0xE2, CHR 0x80, CHR 0x84], [CHR 0xE2, CHR 0x80, CHR 0x85],
     [CHR 0xE2, CHR 0x80, CHR 0x86], [CHR 0xE2, CHR 0x80, CHR 0x87],
     [CHR 0xE2, CHR 0x80, CHR 0x88], [CHR 0xE2, CHR 0x80, CHR 0x89],
     [CHR 0xE2, CHR 0x80, CHR 0x8A],
     [CHR 0xE2, CHR 0x80, CHR 0xA8], [CHR 0xE2, CHR 0x80, CHR 0xA9],
     [CHR 0xE2, CHR 0x80, CHR 0xAF],
     [CHR 0xE2, CHR 0x81, CHR 0x9F],
     [CHR 0xE3, CHR 0x80, CHR 0x80],
     [CHR 0xEF, CHR 0xBB, CHR 0xBF]]"

function strip_leading :: "string list \<Rightarrow> string \<Rightarrow> string" where
  "strip_leading ws s =
     (case find (\<lambda>w. w \<noteq> [] \<and> prefix w s) ws of
        None \<Rightarrow> s
      | Some w \<Rightarrow> strip_leading ws (drop (length w) s))"
  by pat_completeness auto
termination
  by (relation "measure (\<lambda>(ws, s). length s)") (auto simp: find_Some_iff prefix_def)

declare strip_leading.simps [simp del]

definition js_trim :: "string \<Rightarrow> string" where
  "js_trim s = rev (strip_leading (map rev js_whitespace) (rev (strip_leading js_whitespace s)))"

text \<open>\<^verbatim>\<open>String(n)\<close> for a counter: the decimal digits of a non-negative integer.\<close>

definition digit_char :: "nat \<Rightarrow> char" where
  "digit_char d =
     (if d = 0 then CHR ''0'' else if d = 1 then CHR ''1'' else if d = 2 then CHR ''2''
      else if d = 3 then CHR ''3'' else if d = 4 then CHR ''4'' else if d = 5 then CHR ''5''
      else if d = 6 then CHR ''6'' else if d = 7 then CHR ''7'' else if d = 8 then CHR ''8''
      else CHR ''9'')"

fun Number_toString :: "nat \<Rightarrow> string" where
  "Number_toString n =
     (if n < 10 then [digit_char n] else Number_toString (n div 10) @ [digit_char (n mod 10)])"

declare Number_toString.simps [simp del]

text \<open>Reading a decimal string back as an integer, to compare identifiers as integers.\<close>

definition digit_value :: "char \<Rightarrow> nat" where
  "digit_value c = of_char c - 48"

definition parse_decimal :: "string \<Rightarrow> nat" where
  "parse_decimal s = foldl (\<lambda>a c. 10 * a + digit_value c) 0 s"

text \<open>\<^verbatim>\<open>counter++\<close> on a JavaScript number. The counters start at 1 and hold integers; a
  double adds 1 exactly below \<open>2^53\<close>, and at \<open>2^53\<close> the sum rounds back to \<open>2^53\<close>.\<close>

definition js_increment :: "nat \<Rightarrow> nat" where
  "js_increment c = (if c < 2 ^ 53 then c + 1 else c)"

subsection \<open>Dates: \<^verbatim>\<open>new Date().toISOString()\<close>\<close>

text \<open>The clock is the number of milliseconds since the epoch, as \<^verbatim>\<open>Date.now()\<close> gives
  it. The functions follow the definitions of ECMA-262 (Day, DaysInYear, DayFromYear,
  YearFromTime, MonthFromTime, DateFromTime) for times from 1970 on.\<close>

definition msPerDay :: nat where
  "msPerDay = 86400000"

definition Day :: "nat \<Rightarrow> nat" where
  "Day t = t div msPerDay"

definition DaysInYear :: "nat \<Rightarrow> nat" where
  "DaysInYear y =
     (if y mod 4 \<noteq> 0 then 365 else if y mod 100 \<noteq> 0 then 366
      else if y mod 400 \<noteq> 0 then 365 else 366)"

definition DayFromYear :: "nat \<Rightarrow> nat" where
  "DayFromYear y =
     365 * (y - 1970) + (y - 1969) div 4 - (y - 1901) div 100 + (y - 1601) div 400"

text \<open>YearFromTime is the largest year whose first day is not after the day; the search
  goes up from the year it is given.\<close>

function year_from :: "nat \<Rightarrow> nat \<Rightarrow> nat" where
  "year_from d y = (if DayFromYear (y + 1) \<le> d then year_from d (y + 1) else y)"
  by pat_completeness auto
termination
proof (relation "measure (\<lambda>(d, y). d + 1970 - y)")
  fix d y :: nat
  assume "DayFromYear (y + 1) \<le> d"
  then have "y < d + 1970"
    unfolding DayFromYear_def by linarith
  then show "((d, y + 1), (d, y)) \<in> measure (\<lambda>(d, y). d + 1970 - y)"
    by simp
qed simp

declare year_from.simps [simp del]

definition YearFromDay :: "nat \<Rightarrow> nat" where
  "YearFromDay d = year_from d 1970"

definition InLeapYear :: "nat \<Rightarrow> nat" where
  "InLeapYear y = (if DaysInYear y = 366 then 1 else 0)"

definition MonthFromDay :: "nat \<Rightarrow> nat \<Rightarrow> nat" where
  "MonthFromDay leap d =
     (if d < 31 then 0 else if d < 59 + leap then 1 else if d < 90 + leap then 2
      else if d < 120 + leap then 3 else if d < 151 + leap then 4
      else if d < 181 + leap then 5 else if d < 212 + leap then 6
      else if d < 243 + leap then 7 else if d < 273 + leap then 8
      else if d < 304 + leap then 9 else if d < 334 + leap then 10 else 11)"

definition DateFromDay :: "nat \<Rightarrow> nat \<Rightarrow> nat" where
  "DateFromDay leap d =
     (let m = MonthFromDay leap d in
      if m = 0 then d + 1 else if m = 1 then d - 30 else if m = 2 then d - 58 - leap
      else if m = 3 then d - 89 - leap else if m = 4 then d - 119 - leap
      else if m = 5 then d - 150 - leap else if m = 6 then d - 180 - leap
      else if m = 7 then d - 211 - leap else if m = 8 then d - 242 - leap
      else if m = 9 then d - 272 - leap else if m = 10 then d - 303 - leap
      else d - 333 - leap)"

text \<open>The last \<open>w\<close> decimal digits of a number, with leading zeros.\<close>

fun zero_pad :: "nat \<Rightarrow> nat \<Rightarrow> string" where
  "zero_pad w n =
     (if w = 0 then [] else zero_pad (w - 1) (n div 10) @ [digit_char (n mod 10)])"

declare zero_pad.simps [simp del]

definition iso_year :: "nat \<Rightarrow> string" where
  "iso_year y = (if y \<le> 9999 then zero_pad 4 y else ''+'' @ zero_pad 6 y)"

definition iso_format :: "nat \<Rightarrow> nat \<Rightarrow> nat \<Rightarrow> nat \<Rightarrow> string" where
  "iso_format y m dt t =
     iso_year y @ ''-'' @ zero_pad 2 (m + 1) @ ''-'' @ zero_pad 2 dt @ ''T''
       @ zero_pad 2 (t div 3600000 mod 24) @ '':''
       @ zero_pad 2 (t div 60000 mod 60) @ '':''
       @ zero_pad 2 (t div 1000 mod 60) @ ''.''
       @ zero_pad 3 (t mod 1000) @ ''Z''"

definition iso_of_year :: "nat \<Rightarrow> nat \<Rightarrow> nat \<Rightarrow> string" where
  "iso_of_year y d t =
     iso_format y (MonthFromDay (InLeapYear y) (d - DayFromYear y))
       (DateFromDay (InLeapYear y) (d - DayFromYear y)) t"

definition toISOString :: "nat \<Rightarrow> string" where
  "toISOString t = iso_of_year (YearFromDay (Day t)) (Day t) t"

text \<open>Reading a timestamp back, as \<^verbatim>\<open>Date.parse\<close> does for the format of
  \<^verbatim>\<open>toISOString\<close>: \<^verbatim>\<open>YYYY-MM-DDTHH:mm:ss.sssZ\<close>, or a sign and six digits for the
  year; the fields must be in range (month 1 to 12, a day of that month, hour below 24,
  minute and second below 60). A string it accepts is a valid timestamp.\<close>

definition is_digit :: "char \<Rightarrow> bool" where
  "is_digit c = (c \<in> set ''0123456789'')"

definition read_digits :: "nat \<Rightarrow> string \<Rightarrow> (nat \<times> string) option" where
  "read_digits w s =
     (if length s < w \<or> \<not> list_all is_digit (take w s) then None
      else Some (parse_decimal (take w s), drop w s))"

definition expect :: "char \<Rightarrow> string \<Rightarrow> string option" where
  "expect c s = (case s of [] \<Rightarrow> None | x # r \<Rightarrow> if x = c then Some r else None)"

definition read_year :: "string \<Rightarrow> (nat \<times> string) option" where
  "read_year s =
     (case s of [] \<Rightarrow> None | c # r \<Rightarrow> if c = CHR ''+'' then read_digits 6 r else read_digits 4 s)"

definition DaysInMonth :: "nat \<Rightarrow> nat \<Rightarrow> nat" where
  "DaysInMonth leap m =
     (if m = 2 then 28 + leap else if m = 4 \<or> m = 6 \<or> m = 9 \<or> m = 11 then 30 else 31)"

definition DayOfMonthStart :: "nat \<Rightarrow> nat \<Rightarrow> nat" where
  "DayOfMonthStart leap m =
     (if m = 0 then 0 else if m = 1 then 31 else if m = 2 then 59 + leap
      else if m = 3 then 90 + leap else if m = 4 then 120 + leap
      else if m = 5 then 151 + leap else if m = 6 then 181 + leap
      else if m = 7 then 212 + leap else if m = 8 then 243 + leap
      else if m = 9 then 273 + leap else if m = 10 then 304 + leap else 334 + leap)"

definition MakeDate :: "nat \<Rightarrow> nat \<Rightarrow> nat \<Rightarrow> nat \<Rightarrow> nat \<Rightarrow> nat \<Rightarrow> nat \<Rightarrow> nat option" where
  "MakeDate y mo dt hh mi ss ms =
     (if 1970 \<le> y \<and> 1 \<le> mo \<and> mo \<le> 12 \<and> 1 \<le> dt \<and> dt \<le> DaysInMonth (InLeapYear y) mo
         \<and> hh < 24 \<and> mi < 60 \<and> ss < 60
      then Some ((DayFromYear y + DayOfMonthStart (InLeapYear y) (mo - 1) + dt - 1) * msPerDay
                 + hh * 3600000 + mi * 60000 + ss * 1000 + ms)
      else None)"

definition Date_parse :: "string \<Rightarrow> nat option" where
  "Date_parse s = do {
     (y, s) \<leftarrow> read_year s;
     s \<leftarrow> expect CHR ''-'' s;
     (mo, s) \<leftarrow> read_digits 2 s;
     s \<leftarrow> expect CHR ''-'' s;
     (dt, s) \<leftarrow> read_digits 2 s;
     s \<leftarrow> expect CHR ''T'' s;
     (hh, s) \<leftarrow> read_digits 2 s;
     s \<leftarrow> expect CHR '':'' s;
     (mi, s) \<leftarrow> read_digits 2 s;
     s \<leftarrow> expect CHR '':'' s;
     (ss, s) \<leftarrow> read_digits 2 s;
     s \<leftarrow> expect CHR ''.'' s;
     (ms, s) \<leftarrow> read_digits 3 s;
     s \<leftarrow> expect CHR ''Z'' s;
     if s = [] then MakeDate y mo dt hh mi ss ms else None
   }"

subsection \<open>\<^verbatim>\<open>Map\<close>: keyed collections in insertion order\<close>

type_synonym ('k, 'v) js_map = "('k \<times> 'v) list"

definition Map_get :: "('k, 'v) js_map \<Rightarrow> 'k \<Rightarrow> 'v option" where
  "Map_get m k = map_of m k"

definition Map_has :: "('k, 'v) js_map \<Rightarrow> 'k \<Rightarrow> bool" where
  "Map_has m k = (map_of m k \<noteq> None)"

text \<open>\<^verbatim>\<open>set\<close> replaces the value of a key in place and appends a new key at the end.\<close>

fun Map_set :: "('k, 'v) js_map \<Rightarrow> 'k \<Rightarrow> 'v \<Rightarrow> ('k, 'v) js_map" where
  "Map_set [] k v = [(k, v)]"
| "Map_set ((k', v') # m) k v =
     (if k' = k then (k, v) # m else (k', v') # Map_set m k v)"

definition Map_delete :: "('k, 'v) js_map \<Rightarrow> 'k \<Rightarrow> ('k, 'v) js_map" where
  "Map_delete m k = filter (\<lambda>kv. fst kv \<noteq> k) m"

definition Map_values :: "('k, 'v) js_map \<Rightarrow> 'v list" where
  "Map_values m = map snd m"

subsection \<open>\<^verbatim>\<open>atob\<close> and \<^verbatim>\<open>split\<close>, used by the login handler\<close>

definition b64_value :: "char \<Rightarrow> nat option" where
  "b64_value c =
     (let n = (of_char c :: nat) in
      if 65 \<le> n \<and> n \<le> 90 then Some (n - 65)
      else if 97 \<le> n \<and> n \<le> 122 then Some (n - 71)
      else if 48 \<le> n \<and> n \<le> 57 then Some (n + 4)
      else if c = CHR ''+'' then Some 62
      else if c = CHR ''/'' then Some 63
      else None)"

fun b64_bytes :: "nat list \<Rightarrow> string" where
  "b64_bytes (a # b # c # d # rest) =
     [char_of (((a * 64 + b) * 64 + c) div 1024),
      char_of (((a * 64 + b) * 64 + c) div 4 mod 256),
      char_of ((c * 64 + d) mod 256)] @ b64_bytes rest"
| "b64_bytes [a, b, c] = [char_of ((a * 64 + b) div 16), char_of ((b * 64 + c) div 4 mod 256)]"
| "b64_bytes [a, b] = [char_of ((a * 64 + b) div 16)]"
| "b64_bytes _ = []"

definition ascii_whitespace :: "char set" where
  "ascii_whitespace = {CHR 0x09, CHR 0x0A, CHR 0x0C, CHR 0x0D, CHR 0x20}"

definition strip_padding :: "string \<Rightarrow> string" where
  "strip_padding s =
     (if length s mod 4 \<noteq> 0 then s
      else if 2 \<le> length s \<and> drop (length s - 2) s = ''=='' then take (length s - 2) s
      else if 1 \<le> length s \<and> drop (length s - 1) s = ''='' then take (length s - 1) s
      else s)"

text \<open>\<^verbatim>\<open>atob\<close> (forgiving base64): white space is dropped, then the padding of a string
  whose length is a multiple of four; a length of 1 modulo 4 or a character outside the
  alphabet throws.\<close>

definition atob :: "string \<Rightarrow> exn + string" where
  "atob s =
     (let d = strip_padding (filter (\<lambda>c. c \<notin> ascii_whitespace) s) in
      if length d mod 4 = 1 \<or> (\<exists>c \<in> set d. b64_value c = None) then Inl InvalidCharacterError
      else Inr (b64_bytes (map (\<lambda>c. the (b64_value c)) d)))"

fun split_on :: "char \<Rightarrow> string \<Rightarrow> string list" where
  "split_on c [] = [[]]"
| "split_on c (x # xs) =
     (if x = c then [] # split_on c xs
      else (case split_on c xs of [] \<Rightarrow> [[x]] | w # ws \<Rightarrow> (x # w) # ws))"

section \<open>The data model\<close>

record project =
  project_id :: string
  project_name :: string
  project_createdAt :: string

record todo =
  todo_id :: string
  todo_projectId :: string
  todo_title :: string
  todo_completed :: bool
  todo_dueDate :: "string option"
  todo_createdAt :: string

text \<open>The module's variables: the two collections, their counters and the token
  registry (token to expiry in milliseconds).\<close>

record state =
  projects :: "(string, project) js_map"
  todos :: "(string, todo) js_map"
  projectCounter :: nat
  todoCounter :: nat
  validJwts :: "(string, nat) js_map"

definition initial :: state where
  "initial = \<lparr>projects = [], todos = [], projectCounter = 1, todoCounter = 1, validJwts = []\<rparr>"

subsection \<open>Responses\<close>

datatype payload =
    PProject project
  | PTodo todo
  | PProjects "project list"
  | PTodos "todo list"
  | PError string
  | PMessage string
  | PToken string nat
  | PEmptyObject

datatype body = Json payload | Text string | NoBody

record response =
  res_status :: nat
  res_body :: body

definition json :: "payload \<Rightarrow> nat \<Rightarrow> response" where
  "json res st = \<lparr>res_status = st, res_body = Json res\<rparr>"

definition notFound :: response where
  "notFound = \<lparr>res_status = 404, res_body = Text ''Not Found''\<rparr>"

definition plain :: "string \<Rightarrow> nat \<Rightarrow> response" where
  "plain msg st = \<lparr>res_status = st, res_body = Text msg\<rparr>"

definition no_content :: response where
  "no_content = \<lparr>res_status = 204, res_body = NoBody\<rparr>"

text \<open>\<^verbatim>\<open>parseBody\<close>: the argument is what \<^verbatim>\<open>req.json()\<close> does, \<open>None\<close> when it throws.\<close>

definition parseBody :: "jsval option \<Rightarrow> jsval" where
  "parseBody r = (case r of Some v \<Rightarrow> v | None \<Rightarrow> JNull)"

section \<open>Handlers\<close>

text \<open>Each handler takes what it reads of its arguments (\<^verbatim>\<open>body\<close>, \<^verbatim>\<open>params\<close>, the clock
  for \<^verbatim>\<open>new Date()\<close>) and the module state, and returns its response with the new state.
  \<^verbatim>\<open>const [id] = params\<close> on an empty list gives undefined, which is a key of no map.
  A handler that calls \<^verbatim>\<open>String\<close> can throw (\<open>Inl\<close>); it does so before it changes
  anything.\<close>

definition listProjects :: "state \<Rightarrow> response" where
  "listProjects s = json (PProjects (Map_values (projects s))) 200"

definition createProject :: "nat \<Rightarrow> jsval \<Rightarrow> state \<Rightarrow> (exn + response) \<times> state" where
  "createProject clock body s =
     (case js_String (nullish (get_prop body ''name'') (JStr [])) of
        Inl e \<Rightarrow> (Inl e, s)
      | Inr str \<Rightarrow>
          if js_trim str = [] then (Inr (plain ''Missing project name'' 400), s)
          else
            (let id = Number_toString (projectCounter s);
                 project = \<lparr>project_id = id, project_name = js_trim str,
                            project_createdAt = toISOString clock\<rparr>
             in (Inr (json (PProject project) 201),
                 s\<lparr>projects := Map_set (projects s) id project,
                   projectCounter := js_increment (projectCounter s)\<rparr>)))"

definition getProject :: "string list \<Rightarrow> state \<Rightarrow> response" where
  "getProject params s =
     (case params of
        [] \<Rightarrow> notFound
      | projectId # _ \<Rightarrow>
          (case Map_get (projects s) projectId of
             Some project \<Rightarrow> json (PProject project) 200
           | None \<Rightarrow> notFound))"

definition updateProject :: "string list \<Rightarrow> jsval \<Rightarrow> state \<Rightarrow> (exn + response) \<times> state" where
  "updateProject params body s =
     (case params of
        [] \<Rightarrow> (Inr notFound, s)
      | projectId # _ \<Rightarrow>
          (case Map_get (projects s) projectId of
             None \<Rightarrow> (Inr notFound, s)
           | Some existing \<Rightarrow>
               (case js_String (nullish (get_prop body ''name'') (JStr [])) of
                  Inl e \<Rightarrow> (Inl e, s)
                | Inr str \<Rightarrow>
                    if js_trim str = [] then (Inr (plain ''Missing project name'' 400), s)
                    else
                      (let updated = existing\<lparr>project_name := js_trim str\<rparr>
                       in (Inr (json (PProject updated) 200),
                           s\<lparr>projects := Map_set (projects s) projectId updated\<rparr>)))))"

definition deleteProject :: "string list \<Rightarrow> state \<Rightarrow> response \<times> state" where
  "deleteProject params s =
     (case params of
        [] \<Rightarrow> (notFound, s)
      | projectId # _ \<Rightarrow>
          if \<not> Map_has (projects s) projectId then (notFound, s)
          else (no_content, s\<lparr>projects := Map_delete (projects s) projectId\<rparr>))"

definition listTodos :: "string list \<Rightarrow> state \<Rightarrow> response" where
  "listTodos params s =
     (case params of
        [] \<Rightarrow> notFound
      | projectId # _ \<Rightarrow>
          if \<not> Map_has (projects s) projectId then notFound
          else json (PTodos (filter (\<lambda>t. todo_projectId t = projectId) (Map_values (todos s)))) 200)"

definition listAllTodos :: "state \<Rightarrow> response" where
  "listAllTodos s = json (PTodos (Map_values (todos s))) 200"

text \<open>The object that \<^verbatim>\<open>createTodo\<close> builds.\<close>

definition new_todo :: "string \<Rightarrow> string \<Rightarrow> string \<Rightarrow> jsval \<Rightarrow> string \<Rightarrow> todo" where
  "new_todo todoId projectId title body createdAt =
     \<lparr>todo_id = todoId, todo_projectId = projectId, todo_title = title,
      todo_completed = js_Boolean (nullish (get_prop body ''completed'') (JBool False)),
      todo_dueDate = if_string (get_prop body ''dueDate'') Some None,
      todo_createdAt = createdAt\<rparr>"

definition createTodo :: "nat \<Rightarrow> string list \<Rightarrow> jsval \<Rightarrow> state \<Rightarrow> (exn + response) \<times> state" where
  "createTodo clock params body s =
     (case params of
        [] \<Rightarrow> (Inr notFound, s)
      | projectId # _ \<Rightarrow>
          if \<not> Map_has (projects s) projectId then (Inr notFound, s)
          else
            (case js_String (nullish (get_prop body ''title'') (JStr [])) of
               Inl e \<Rightarrow> (Inl e, s)
             | Inr str \<Rightarrow>
                 if js_trim str = [] then (Inr (plain ''Missing todo title'' 400), s)
                 else
                   (let id = Number_toString (todoCounter s);
                        todo = new_todo id projectId (js_trim str) body (toISOString clock)
                    in (Inr (json (PTodo todo) 201),
                        s\<lparr>todos := Map_set (todos s) id todo,
                          todoCounter := js_increment (todoCounter s)\<rparr>))))"

definition getTodo :: "string list \<Rightarrow> state \<Rightarrow> response" where
  "getTodo params s =
     (case params of
        [] \<Rightarrow> notFound
      | todoId # _ \<Rightarrow>
          (case Map_get (todos s) todoId of
             Some todo \<Rightarrow> json (PTodo todo) 200
           | None \<Rightarrow> notFound))"

text \<open>The object that \<^verbatim>\<open>updateTodo\<close> builds from the stored todo and the body.\<close>

definition updated_todo :: "todo \<Rightarrow> jsval \<Rightarrow> todo" where
  "updated_todo todo body =
     todo\<lparr>todo_title := if_string (get_prop body ''title'') (\<lambda>t. t) (todo_title todo),
          todo_completed :=
            if_boolean (get_prop body ''completed'') (\<lambda>c. c) (todo_completed todo),
          todo_dueDate := if_string (get_prop body ''dueDate'') Some (todo_dueDate todo)\<rparr>"

definition updateTodo :: "string list \<Rightarrow> jsval \<Rightarrow> state \<Rightarrow> response \<times> state" where
  "updateTodo params body s =
     (case params of
        [] \<Rightarrow> (notFound, s)
      | todoId # _ \<Rightarrow>
          (case Map_get (todos s) todoId of
             None \<Rightarrow> (notFound, s)
           | Some todo \<Rightarrow>
               (json (PTodo (updated_todo todo body)) 200,
                s\<lparr>todos := Map_set (todos s) todoId (updated_todo todo body)\<rparr>)))"

definition deleteTodo :: "string list \<Rightarrow> state \<Rightarrow> response \<times> state" where
  "deleteTodo params s =
     (case params of
        [] \<Rightarrow> (notFound, s)
      | todoId # _ \<Rightarrow>
          if \<not> Map_has (todos s) todoId then (notFound, s)
          else (no_content, s\<lparr>todos := Map_delete (todos s) todoId\<rparr>))"

subsection \<open>Login\<close>

definition USERNAME :: string where
  "USERNAME = ''admin''"

definition PASSWORD :: string where
  "PASSWORD = ''hunter2''"

text \<open>The signed token is what the JWT library returns for the issue and expiry times (in
  seconds); the subject, the role, the algorithm and the secret are constants of the
  module. The library is a parameter of the model.\<close>

type_synonym signer = "nat \<Rightarrow> nat \<Rightarrow> string"

definition login :: "signer \<Rightarrow> string option \<Rightarrow> nat \<Rightarrow> state \<Rightarrow> (exn + response) \<times> state" where
  "login sign authHeader clock s =
     (case authHeader of
        None \<Rightarrow> (Inr (json (PError ''Missing Authorization header'') 401), s)
      | Some h \<Rightarrow>
          if h = [] \<or> \<not> prefix ''Basic '' h
          then (Inr (json (PError ''Missing Authorization header'') 401), s)
          else
            (case atob (drop 6 h) of
               Inl e \<Rightarrow> (Inl e, s)
             | Inr decoded \<Rightarrow>
                 (case split_on CHR '':'' decoded of
                    username # password # _ \<Rightarrow>
                      if username \<noteq> USERNAME \<or> password \<noteq> PASSWORD
                      then (Inr (json (PError ''Invalid credentials'') 401), s)
                      else
                        (let now = clock div 1000;
                             exp = now + 60 * 60;
                             jwt = sign now exp;
                             expMs = exp * 1000
                         in (Inr (json (PToken jwt expMs) 200),
                             s\<lparr>validJwts := Map_set (validJwts s) jwt expMs\<rparr>))
                  | _ \<Rightarrow> (Inr (json (PError ''Invalid credentials'') 401), s))))"

section \<open>The auth gate\<close>

text \<open>The arguments are the value of the \<^verbatim>\<open>authorization\<close> header (\<open>None\<close> when the
  request has none) and \<^verbatim>\<open>Date.now()\<close>. \<^verbatim>\<open>!expMs\<close> holds for a missing entry and for an
  expiry of 0.\<close>

definition authHandler :: "string option \<Rightarrow> nat \<Rightarrow> state \<Rightarrow> response" where
  "authHandler authHeader now s =
     (case authHeader of
        None \<Rightarrow> json (PError ''Missing Authorization header'') 401
      | Some h \<Rightarrow>
          if h = [] \<or> \<not> prefix ''Bearer '' h
          then json (PError ''Missing Authorization header'') 401
          else
            (case Map_get (validJwts s) (drop 7 h) of
               None \<Rightarrow> json (PError ''Invalid token'') 401
             | Some expMs \<Rightarrow>
                 if expMs = 0 \<or> expMs < now then json (PError ''Invalid token'') 401
                 else json (PMessage ''Token is valid'') 200))"

section \<open>The router\<close>

text \<open>The route patterns are built from literal text and the capturing group
  \<^verbatim>\<open>([^\/]+)\<close>; every one ends with \<^verbatim>\<open>$\<close>, and \<open>anchored\<close> says whether it starts
  with \<^verbatim>\<open>^\<close>.\<close>

datatype atom = Lit string | Segment

record regexp =
  anchored :: bool
  atoms :: "atom list"

fun first_some :: "'a option list \<Rightarrow> 'a option" where
  "first_some [] = None"
| "first_some (None # xs) = first_some xs"
| "first_some (Some x # xs) = Some x"

text \<open>Matching the atoms against the whole of a string, returning the captures. The
  group is greedy: it takes the longest run of characters other than a slash first and
  gives characters back while the rest does not match.\<close>

fun match_here :: "atom list \<Rightarrow> string \<Rightarrow> string list option" where
  "match_here [] s = (if s = [] then Some [] else None)"
| "match_here (Lit l # as) s =
     (if take (length l) s = l then match_here as (drop (length l) s) else None)"
| "match_here (Segment # as) s =
     first_some
       (map (\<lambda>k. map_option ((#) (take k s)) (match_here as (drop k s)))
          (rev [1..<Suc (length (takeWhile (\<lambda>c. c \<noteq> CHR ''/'') s))]))"

text \<open>Without \<^verbatim>\<open>^\<close> the match may start anywhere; the leftmost start wins.\<close>

fun search :: "atom list \<Rightarrow> string \<Rightarrow> string list option" where
  "search as [] = match_here as []"
| "search as (c # s) =
     (case match_here as (c # s) of Some caps \<Rightarrow> Some caps | None \<Rightarrow> search as s)"

text \<open>\<^verbatim>\<open>path.match(re)\<close> followed by \<^verbatim>\<open>match.slice(1)\<close>: the captures of a match.\<close>

definition str_match :: "string \<Rightarrow> regexp \<Rightarrow> string list option" where
  "str_match s re = (if anchored re then match_here (atoms re) s else search (atoms re) s)"

datatype handler_fn =
    Root | ListProjects | CreateProject | GetProject | UpdateProject | DeleteProject
  | ListTodos | CreateTodo | ListAllTodos | GetTodo | UpdateTodo | DeleteTodo | Login

record route =
  route_method :: string
  route_path :: regexp
  route_handler :: handler_fn
  route_name :: "string option"

definition routes :: "route list" where
  "routes =
    [\<lparr>route_method = ''GET'', route_path = \<lparr>anchored = False, atoms = [Lit ''/'']\<rparr>,
      route_handler = Root, route_name = None\<rparr>,
     \<lparr>route_method = ''GET'', route_path = \<lparr>anchored = True, atoms = [Lit ''/projects'']\<rparr>,
      route_handler = ListProjects, route_name = None\<rparr>,
     \<lparr>route_method = ''POST'', route_path = \<lparr>anchored = True, atoms = [Lit ''/projects'']\<rparr>,
      route_handler = CreateProject, route_name = None\<rparr>,
     \<lparr>route_method = ''GET'',
      route_path = \<lparr>anchored = True, atoms = [Lit ''/projects/'', Segment]\<rparr>,
      route_handler = GetProject, route_name = None\<rparr>,
     \<lparr>route_method = ''PUT'',
      route_path = \<lparr>anchored = True, atoms = [Lit ''/projects/'', Segment]\<rparr>,
      route_handler = UpdateProject, route_name = None\<rparr>,
     \<lparr>route_method = ''DELETE'',
      route_path = \<lparr>anchored = True, atoms = [Lit ''/projects/'', Segment]\<rparr>,
      route_handler = DeleteProject, route_name = None\<rparr>,
     \<lparr>route_method = ''GET'',
      route_path = \<lparr>anchored = True, atoms = [Lit ''/projects/'', Segment, Lit ''/todos'']\<rparr>,
      route_handler = ListTodos, route_name = None\<rparr>,
     \<lparr>route_method = ''POST'',
      route_path = \<lparr>anchored = True, atoms = [Lit ''/projects/'', Segment, Lit ''/todos'']\<rparr>,
      route_handler = CreateTodo, route_name = None\<rparr>,
     \<lparr>route_method = ''GET'', route_path = \<lparr>anchored = True, atoms = [Lit ''/todos'']\<rparr>,
      route_handler = ListAllTodos, route_name = None\<rparr>,
     \<lparr>route_method = ''GET'',
      route_path = \<lparr>anchored = True, atoms = [Lit ''/todos/'', Segment]\<rparr>,
      route_handler = GetTodo, route_name = None\<rparr>,
     \<lparr>route_method = ''PUT'',
      route_path = \<lparr>anchored = True, atoms = [Lit ''/todos/'', Segment]\<rparr>,
      route_handler = UpdateTodo, route_name = None\<rparr>,
     \<lparr>route_method = ''DELETE'',
      route_path = \<lparr>anchored = True, atoms = [Lit ''/todos/'', Segment]\<rparr>,
      route_handler = DeleteTodo, route_name = None\<rparr>,
     \<lparr>route_method = ''POST'', route_path = \<lparr>anchored = True, atoms = [Lit ''/login'']\<rparr>,
      route_handler = Login, route_name = Some ''login''\<rparr>]"

record route_match =
  match_handler :: handler_fn
  match_name :: "string option"
  match_params :: "string list"

text \<open>The loop of \<^verbatim>\<open>matchRoute\<close> over a list of routes.\<close>

fun scan_routes :: "route list \<Rightarrow> string \<Rightarrow> string \<Rightarrow> route_match option" where
  "scan_routes [] path meth = None"
| "scan_routes (r # rs) path meth =
     (case str_match path (route_path r) of
        Some caps \<Rightarrow>
          if meth = route_method r
          then Some \<lparr>match_handler = route_handler r, match_name = route_name r,
                      match_params = caps\<rparr>
          else scan_routes rs path meth
      | None \<Rightarrow> scan_routes rs path meth)"

definition matchRoute :: "string \<Rightarrow> string \<Rightarrow> route_match option" where
  "matchRoute path meth = scan_routes routes path meth"

section \<open>The request pipeline\<close>

text \<open>A request as the server reads it: the method, the path of the URL, the
  \<^verbatim>\<open>authorization\<close> header, what \<^verbatim>\<open>req.json()\<close> returns (\<open>None\<close> when it throws), and
  the clock as the auth gate and as the handler read it.\<close>

record request =
  req_method :: string
  req_pathname :: string
  req_authorization :: "string option"
  req_json :: "jsval option"
  clock_gate :: nat
  clock_handler :: nat

fun invoke ::
  "handler_fn \<Rightarrow> signer \<Rightarrow> request \<Rightarrow> jsval \<Rightarrow> string list \<Rightarrow> state
     \<Rightarrow> (exn + response) \<times> state" where
  "invoke Root sign req body params s = (Inr (json PEmptyObject 200), s)"
| "invoke ListProjects sign req body params s = (Inr (listProjects s), s)"
| "invoke CreateProject sign req body params s = createProject (clock_handler req) body s"
| "invoke GetProject sign req body params s = (Inr (getProject params s), s)"
| "invoke UpdateProject sign req body params s = updateProject params body s"
| "invoke DeleteProject sign req body params s =
     (Inr (fst (deleteProject params s)), snd (deleteProject params s))"
| "invoke ListTodos sign req body params s = (Inr (listTodos params s), s)"
| "invoke CreateTodo sign req body params s = createTodo (clock_handler req) params body s"
| "invoke ListAllTodos sign req body params s = (Inr (listAllTodos s), s)"
| "invoke GetTodo sign req body params s = (Inr (getTodo params s), s)"
| "invoke UpdateTodo sign req body params s =
     (Inr (fst (updateTodo params body s)), snd (updateTodo params body s))"
| "invoke DeleteTodo sign req body params s =
     (Inr (fst (deleteTodo params s)), snd (deleteTodo params s))"
| "invoke Login sign req body params s =
     login sign (req_authorization req) (clock_handler req) s"

definition handler :: "signer \<Rightarrow> request \<Rightarrow> state \<Rightarrow> (exn + response) \<times> state" where
  "handler sign req s =
     (case matchRoute (req_pathname req) (req_method req) of
        None \<Rightarrow> (Inr notFound, s)
      | Some m \<Rightarrow>
          if match_name m \<noteq> Some ''login''
             \<and> res_status (authHandler (req_authorization req) (clock_gate req) s) \<noteq> 200
          then (Inr (authHandler (req_authorization req) (clock_gate req) s), s)
          else
            invoke (match_handler m) sign req
              (if req_method req = ''POST'' \<or> req_method req = ''PUT''
               then parseBody (req_json req) else JNull)
              (match_params m) s)"

text \<open>The server handling a sequence of requests, one after the other.\<close>

fun run :: "signer \<Rightarrow> request list \<Rightarrow> state \<Rightarrow> (exn + response) list \<times> state" where
  "run sign [] s = ([], s)"
| "run sign (r # rs) s =
     (fst (handler sign r s) # fst (run sign rs (snd (handler sign r s))),
      snd (run sign rs (snd (handler sign r s))))"

section \<open>Vocabulary of the statements\<close>

text \<open>A route matches a request when its method is the request's and its pattern matches
  the path; \<open>match_of\<close> is what \<^verbatim>\<open>matchRoute\<close> returns for it. \<open>run_length\<close> is the
  length of the longest run of characters other than a slash at the start of a string.\<close>

definition route_matches :: "string \<Rightarrow> string \<Rightarrow> route \<Rightarrow> bool" where
  "route_matches path meth r = (route_method r = meth \<and> str_match path (route_path r) \<noteq> None)"

definition match_of :: "string \<Rightarrow> route \<Rightarrow> route_match" where
  "match_of path r =
     \<lparr>match_handler = route_handler r, match_name = route_name r,
      match_params = the (str_match path (route_path r))\<rparr>"

definition run_length :: "string \<Rightarrow> nat" where
  "run_length s = length (takeWhile (\<lambda>c. c \<noteq> CHR ''/'') s)"

text \<open>A request is authorised in a state when the auth gate answers 200 for it.\<close>

definition authorised :: "request \<Rightarrow> state \<Rightarrow> bool" where
  "authorised req s = (res_status (authHandler (req_authorization req) (clock_gate req) s) = 200)"

text \<open>The identifier that a response reports as newly created: the id of the project in a
  201 response. \<open>ids_from c n\<close> are the identifiers of \<open>n\<close> creations in a row that start
  with the counter at \<open>c\<close>. \<open>step_ok c p\<close> says that the outcome \<open>p\<close> of one request,
  handled with the project counter at \<open>c\<close>, either creates no project and leaves the
  counter, or creates the project \<open>c\<close> and increments the counter.\<close>

definition created_project_id :: "exn + response \<Rightarrow> string option" where
  "created_project_id out =
     (case out of
        Inl e \<Rightarrow> None
      | Inr r \<Rightarrow>
          if res_status r = 201
          then (case res_body r of Json (PProject p) \<Rightarrow> Some (project_id p) | _ \<Rightarrow> None)
          else None)"

definition created_project_ids :: "(exn + response) list \<Rightarrow> string list" where
  "created_project_ids outs = List.map_filter created_project_id outs"

definition ids_from :: "nat \<Rightarrow> nat \<Rightarrow> string list" where
  "ids_from c n = map (\<lambda>k. Number_toString ((js_increment ^^ k) c)) [0..<n]"

definition step_ok :: "nat \<Rightarrow> (exn + response) \<times> state \<Rightarrow> bool" where
  "step_ok c p =
     (created_project_id (fst p) = None \<and> projectCounter (snd p) = c
      \<or> created_project_id (fst p) = Some (Number_toString c)
          \<and> projectCounter (snd p) = js_increment c)"

section \<open>A small server, for examples\<close>

text \<open>The signer returns one fixed token. The example state is the one a fresh server
  reaches after a login, the creation of the project Groceries and of the todo Milk in it,
  all at time 0 (\<open>example_state_reachable\<close> below).\<close>

definition example_signer :: signer where
  "example_signer iat exp = ''token''"

definition example_project :: project where
  "example_project =
     \<lparr>project_id = ''1'', project_name = ''Groceries'',
      project_createdAt = ''1970-01-01T00:00:00.000Z''\<rparr>"

definition example_todo :: todo where
  "example_todo =
     \<lparr>todo_id = ''1'', todo_projectId = ''1'', todo_title = ''Milk'', todo_completed = False,
      todo_dueDate = None, todo_createdAt = ''1970-01-01T00:00:00.000Z''\<rparr>"

definition example_state :: state where
  "example_state =
     \<lparr>projects = [(''1'', example_project)], todos = [(''1'', example_todo)],
      projectCounter = 2, todoCounter = 2, validJwts = [(''token'', 3600000)]\<rparr>"

definition example_request :: request where
  "example_request =
     \<lparr>req_method = ''GET'', req_pathname = ''/projects'',
      req_authorization = Some ''Bearer token'', req_json = None,
      clock_gate = 0, clock_handler = 0\<rparr>"

definition login_request :: request where
  "login_request =
     \<lparr>req_method = ''POST'', req_pathname = ''/login'',
      req_authorization = Some ''Basic YWRtaW46aHVudGVyMg=='', req_json = None,
      clock_gate = 0, clock_handler = 0\<rparr>"

definition create_request :: request where
  "create_request =
     \<lparr>req_method = ''POST'', req_pathname = ''/projects'',
      req_authorization = Some ''Bearer token'',
      req_json = Some (JObj [(''name'', JStr ''Groceries'')]),
      clock_gate = 0, clock_handler = 0\<rparr>"

definition create_todo_request :: request where
  "create_todo_request =
     \<lparr>req_method = ''POST'', req_pathname = ''/projects/1/todos'',
      req_authorization = Some ''Bearer token'',
      req_json = Some (JObj [(''title'', JStr ''Milk'')]),
      clock_gate = 0, clock_handler = 0\<rparr>"

definition delete_request :: request where
  "delete_request =
     \<lparr>req_method = ''DELETE'', req_pathname = ''/projects/1'',
      req_authorization = Some ''Bearer token'', req_json = None,
      clock_gate = 0, clock_handler = 0\<rparr>"

section \<open>Facts about the built-ins and the collections\<close>

lemma Map_get_set: "Map_get (Map_set m k v) k' = (if k' = k then Some v else Map_get m k')"
  by (induction m) (auto simp: Map_get_def)

lemma Map_get_delete: "Map_get (Map_delete m k) k' = (if k' = k then None else Map_get m k')"
  by (induction m) (auto simp: Map_get_def Map_delete_def)

lemma Map_has_get: "Map_has m k = (Map_get m k \<noteq> None)"
  by (simp add: Map_has_def Map_get_def)

lemma Map_set_same: "Map_get m k = Some v \<Longrightarrow> Map_set m k v = m"
  by (induction m) (auto simp: Map_get_def split: if_splits)

lemma if_string_string: "if_string (Some (JStr t)) f d = f t"
  by (simp add: if_string_def)

lemma if_string_other: "(\<forall>t. v \<noteq> Some (JStr t)) \<Longrightarrow> if_string v f d = d"
  by (cases v; cases "the v") (auto simp: if_string_def)

lemma if_boolean_boolean: "if_boolean (Some (JBool b)) f d = f b"
  by (simp add: if_boolean_def)

lemma if_boolean_other: "(\<forall>b. v \<noteq> Some (JBool b)) \<Longrightarrow> if_boolean v f d = d"
  by (cases v; cases "the v") (auto simp: if_boolean_def)

lemma get_prop_null: "get_prop JNull k = get_prop (JObj []) k"
  by simp

lemma js_trim_empty: "js_trim [] = []"
  by (simp add: js_trim_def strip_leading.simps js_whitespace_def)

lemma js_trim_Groceries: "js_trim ''Groceries'' = ''Groceries''"
  by (simp add: js_trim_def js_whitespace_def strip_leading.simps)

lemma js_trim_Milk: "js_trim ''Milk'' = ''Milk''"
  by (simp add: js_trim_def js_whitespace_def strip_leading.simps)

lemma Number_toString_1: "Number_toString (Suc 0) = ''1''"
  by (simp add: Number_toString.simps digit_char_def)

lemma Number_toString_digits: "set (Number_toString n) \<subseteq> set ''0123456789''"
proof (induction n rule: Number_toString.induct)
  case (1 n)
  show ?case
  proof (cases "n < 10")
    case True
    then show ?thesis
      by (subst Number_toString.simps) (simp add: digit_char_def)
  next
    case False
    with 1 show ?thesis
      by (subst Number_toString.simps) (auto simp: digit_char_def)
  qed
qed

lemma Number_toString_segment:
  "Number_toString n \<noteq> [] \<and> CHR ''/'' \<notin> set (Number_toString n)"
proof
  show "Number_toString n \<noteq> []"
    by (subst Number_toString.simps) simp
  show "CHR ''/'' \<notin> set (Number_toString n)"
    using Number_toString_digits [of n] by auto
qed

lemma js_increment_iterate:
  "c \<le> 2 ^ 53 \<Longrightarrow> (js_increment ^^ k) c = min (c + k) (2 ^ 53)"
  by (induction k) (auto simp: js_increment_def min_def)

lemmas example_defs = example_state_def example_todo_def example_project_def example_signer_def

section \<open>Timestamps\<close>

text \<open>The year search returns the year of a day, the month and date tables are inverse to
  the day of the year, and the decimal fields read back as written: a timestamp written by
  \<^verbatim>\<open>toISOString\<close> parses back to the time it was written from.\<close>

lemma div_step: "0 < k \<Longrightarrow> (n + 1) div k = n div k + (if (n + 1) mod k = 0 then 1 else 0)" for n k :: nat
  by (simp add: div_Suc)

lemma mod_shift: "(n + q * k) mod k = n mod k" for n q k :: nat
  by simp

lemma mod_1970_4: "(1970 + k) mod 4 = (k + 2) mod (4::nat)"
proof -
  have "1970 + k = (k + 2) + 492 * 4" by simp
  then show ?thesis by (simp only: mod_shift)
qed

lemma mod_1970_100: "(1970 + k) mod 100 = (k + 70) mod (100::nat)"
proof -
  have "1970 + k = (k + 70) + 19 * 100" by simp
  then show ?thesis by (simp only: mod_shift)
qed

lemma mod_1970_400: "(1970 + k) mod 400 = (k + 370) mod (400::nat)"
proof -
  have "1970 + k = (k + 370) + 4 * 400" by simp
  then show ?thesis by (simp only: mod_shift)
qed

lemma mod_100_4: "(y::nat) mod 100 = 0 \<Longrightarrow> y mod 4 = 0"
  by presburger

lemma mod_400_100: "(y::nat) mod 400 = 0 \<Longrightarrow> y mod 100 = 0"
  by presburger

lemma quot_69_le: "(k + 69) div 100 \<le> (k::nat)"
  by arith

lemma DayFromYear_step_k: "DayFromYear (1970 + k + 1) = DayFromYear (1970 + k) + DaysInYear (1970 + k)"
proof -
  define A where "A = (k + 1) div 4"
  define B where "B = (k + 69) div 100"
  define C where "C = (k + 369) div 400"
  define d4 :: nat where "d4 = (if (k + 2) mod 4 = 0 then 1 else 0)"
  define d100 :: nat where "d100 = (if (k + 70) mod 100 = 0 then 1 else 0)"
  define d400 :: nat where "d400 = (if (k + 370) mod 400 = 0 then 1 else 0)"
  have s4: "(k + 2) div 4 = A + d4"
    unfolding A_def d4_def using div_step [of 4 "k + 1"] by (simp add: add.commute)
  have s100: "(k + 70) div 100 = B + d100"
    unfolding B_def d100_def using div_step [of 100 "k + 69"] by (simp add: add.commute)
  have s400: "(k + 370) div 400 = C + d400"
    unfolding C_def d400_def using div_step [of 400 "k + 369"] by (simp add: add.commute)
  have l: "DayFromYear (1970 + k + 1) = 365 * (k + 1) + (A + d4) - (B + d100) + (C + d400)"
    unfolding s4 [symmetric] s100 [symmetric] s400 [symmetric]
    by (simp add: DayFromYear_def add.commute)
  have r: "DayFromYear (1970 + k) = 365 * k + A - B + C"
    unfolding A_def B_def C_def by (simp add: DayFromYear_def add.commute)
  have y: "DaysInYear (1970 + k) =
     (if d4 = 0 then 365 else if d100 = 0 then 366 else if d400 = 0 then 365 else 366)"
    unfolding DaysInYear_def mod_1970_4 mod_1970_100 mod_1970_400 d4_def d100_def d400_def by simp
  have i1: "d100 \<le> d4"
    using mod_100_4 [of "1970 + k"] unfolding d4_def d100_def by (simp add: mod_1970_4 mod_1970_100)
  have i2: "d400 \<le> d100"
    using mod_400_100 [of "1970 + k"] unfolding d400_def d100_def by (simp add: mod_1970_400 mod_1970_100)
  have i3: "d4 \<le> 1"
    unfolding d4_def by simp
  have bk: "B \<le> k"
    unfolding B_def by (rule quot_69_le)
  have "365 * (k + 1) + (A + d4) - (B + d100) + (C + d400)
      = 365 * k + A - B + C
        + (if d4 = 0 then 365 else if d100 = 0 then 366 else if d400 = 0 then 365 else 366)"
    using i1 i2 i3 bk by (cases "d4 = 0"; cases "d100 = 0"; cases "d400 = 0") simp_all
  then show ?thesis
    unfolding l r y .
qed

lemma time_of_day:
  "(t div 3600000 mod 24) * 3600000 + (t div 60000 mod 60) * 60000 + (t div 1000 mod 60) * 1000
     + t mod 1000 = (t::nat) mod 86400000"
proof -
  define a where "a = t div 1000"
  define b where "b = a div 60"
  define c where "c = b div 60"
  have b: "t div 60000 = b"
    unfolding b_def a_def by (simp add: div_mult2_eq [symmetric])
  have c: "t div 3600000 = c"
    unfolding c_def b_def a_def by (simp add: div_mult2_eq [symmetric])
  have d: "t div 86400000 = c div 24"
    unfolding c_def b_def a_def by (simp add: div_mult2_eq [symmetric])
  have 1: "t = 1000 * a + t mod 1000"
    unfolding a_def by simp
  have 2: "a = 60 * b + a mod 60"
    unfolding b_def by simp
  have 3: "b = 60 * c + b mod 60"
    unfolding c_def by simp
  have 4: "c = 24 * (c div 24) + c mod 24"
    by simp
  have "t = 86400000 * (c div 24) + (c mod 24 * 3600000 + b mod 60 * 60000 + a mod 60 * 1000 + t mod 1000)"
    using 1 2 3 4 by linarith
  moreover have "t = 86400000 * (t div 86400000) + t mod 86400000"
    by simp
  ultimately have "c mod 24 * 3600000 + b mod 60 * 60000 + a mod 60 * 1000 + t mod 1000 = t mod 86400000"
    using d by linarith
  then show ?thesis
    using b c a_def by simp
qed

lemma DayFromYear_step: "1970 \<le> y \<Longrightarrow> DayFromYear (y + 1) = DayFromYear y + DaysInYear y"
  using DayFromYear_step_k [of "y - 1970"] by simp

lemma DayFromYear_lower: "1970 \<le> y \<Longrightarrow> 364 * (y - 1970) \<le> DayFromYear y"
proof -
  assume "1970 \<le> y"
  then obtain k where y: "y = 1970 + k"
    using le_Suc_ex by blast
  have "DayFromYear (1970 + k) = 365 * k + (k + 1) div 4 - (k + 69) div 100 + (k + 369) div 400"
    by (simp add: DayFromYear_def add.commute)
  then show ?thesis
    unfolding y using quot_69_le [of k] by simp
qed

lemma year_from_spec:
  "1970 \<le> y0 \<Longrightarrow> DayFromYear y0 \<le> d \<Longrightarrow>
     y0 \<le> year_from d y0 \<and> DayFromYear (year_from d y0) \<le> d
     \<and> d < DayFromYear (year_from d y0 + 1)"
proof (induction d y0 rule: year_from.induct)
  case (1 d y)
  show ?case
  proof (cases "DayFromYear (y + 1) \<le> d")
    case True
    with "1.IH" "1.prems" have "y + 1 \<le> year_from d (y + 1)
        \<and> DayFromYear (year_from d (y + 1)) \<le> d
        \<and> d < DayFromYear (year_from d (y + 1) + 1)"
      by simp
    moreover have "year_from d y = year_from d (y + 1)"
      using True by (subst year_from.simps) simp
    ultimately show ?thesis by simp
  next
    case False
    then have "year_from d y = y"
      by (subst year_from.simps) simp
    with False "1.prems" show ?thesis by simp
  qed
qed

lemma InLeapYear_cases: "InLeapYear y = 0 \<or> InLeapYear y = 1"
  by (simp add: InLeapYear_def)

lemma DaysInYear_leap: "DaysInYear y = 365 + InLeapYear y"
  by (simp add: InLeapYear_def DaysInYear_def)

lemma YearFromDay_spec:
  "1970 \<le> YearFromDay d \<and> DayFromYear (YearFromDay d) \<le> d
   \<and> d - DayFromYear (YearFromDay d) < 365 + InLeapYear (YearFromDay d)"
proof -
  have 0: "DayFromYear 1970 = 0"
    by (simp add: DayFromYear_def)
  from year_from_spec [of 1970 d]
  have y: "1970 \<le> YearFromDay d" "DayFromYear (YearFromDay d) \<le> d"
      "d < DayFromYear (YearFromDay d + 1)"
    by (simp_all add: 0 YearFromDay_def)
  from y(3) DayFromYear_step [OF y(1)] DaysInYear_leap [of "YearFromDay d"]
  have "d < DayFromYear (YearFromDay d) + (365 + InLeapYear (YearFromDay d))"
    by simp
  with y show ?thesis by linarith
qed

lemma YearFromDay_upper: "d \<le> 100000000 \<Longrightarrow> YearFromDay d < 1000000"
  using YearFromDay_spec [of d] DayFromYear_lower [of "YearFromDay d"] by linarith

lemma month_date_0:
  assumes "dy < 365"
  shows "MonthFromDay 0 dy \<le> 11 \<and> 1 \<le> DateFromDay 0 dy
    \<and> DateFromDay 0 dy \<le> DaysInMonth 0 (MonthFromDay 0 dy + 1)
    \<and> DayOfMonthStart 0 (MonthFromDay 0 dy) + DateFromDay 0 dy - 1 = dy"
  using assms
  by (auto simp add: MonthFromDay_def DateFromDay_def DaysInMonth_def DayOfMonthStart_def)

lemma month_date_1:
  assumes "dy < 366"
  shows "MonthFromDay 1 dy \<le> 11 \<and> 1 \<le> DateFromDay 1 dy
    \<and> DateFromDay 1 dy \<le> DaysInMonth 1 (MonthFromDay 1 dy + 1)
    \<and> DayOfMonthStart 1 (MonthFromDay 1 dy) + DateFromDay 1 dy - 1 = dy"
  using assms
  by (auto simp add: MonthFromDay_def DateFromDay_def DaysInMonth_def DayOfMonthStart_def)

lemma month_date:
  assumes "leap = 0 \<or> leap = 1" and "dy < 365 + leap"
  shows "MonthFromDay leap dy \<le> 11 \<and> 1 \<le> DateFromDay leap dy
    \<and> DateFromDay leap dy \<le> DaysInMonth leap (MonthFromDay leap dy + 1)
    \<and> DayOfMonthStart leap (MonthFromDay leap dy) + DateFromDay leap dy - 1 = dy"
  using assms month_date_0 [of dy] month_date_1 [of dy] by auto

lemma zero_pad_0: "zero_pad 0 n = []"
  by (subst zero_pad.simps) simp

lemma zero_pad_Suc: "zero_pad (Suc w) n = zero_pad w (n div 10) @ [digit_char (n mod 10)]"
  by (subst zero_pad.simps) simp

lemma length_zero_pad: "length (zero_pad w n) = w"
  by (induction w arbitrary: n) (simp_all add: zero_pad_0 zero_pad_Suc)

lemma digit_char_is_digit: "is_digit (digit_char d)"
  by (simp add: is_digit_def digit_char_def)

lemma zero_pad_digits: "list_all is_digit (zero_pad w n)"
  by (induction w arbitrary: n) (simp_all add: zero_pad_0 zero_pad_Suc digit_char_is_digit)

lemma digit_value_char: "d < 10 \<Longrightarrow> digit_value (digit_char d) = d"
  by (auto simp: digit_char_def digit_value_def)

lemma parse_decimal_snoc: "parse_decimal (s @ [c]) = 10 * parse_decimal s + digit_value c"
  by (simp add: parse_decimal_def)

lemma parse_zero_pad: "parse_decimal (zero_pad w n) = n mod 10 ^ w"
proof (induction w arbitrary: n)
  case 0
  then show ?case by (simp add: zero_pad_0 parse_decimal_def)
next
  case (Suc w)
  have "n mod (10 * 10 ^ w) = 10 * (n div 10 mod 10 ^ w) + n mod 10"
    by (rule mod_mult2_eq)
  with Suc show ?case
    by (simp add: zero_pad_Suc parse_decimal_snoc digit_value_char)
qed

lemma read_digits_zero_pad:
  "n < 10 ^ w \<Longrightarrow> read_digits w (zero_pad w n @ rest) = Some (n, rest)"
  by (simp add: read_digits_def length_zero_pad zero_pad_digits parse_zero_pad)

lemma read_digits_2: "n < 100 \<Longrightarrow> read_digits 2 (zero_pad 2 n @ rest) = Some (n, rest)"
  using read_digits_zero_pad [of n 2 rest] by simp

lemma read_digits_3: "n < 1000 \<Longrightarrow> read_digits 3 (zero_pad 3 n @ rest) = Some (n, rest)"
  using read_digits_zero_pad [of n 3 rest] by simp

lemma read_digits_4: "n < 10000 \<Longrightarrow> read_digits 4 (zero_pad 4 n @ rest) = Some (n, rest)"
  using read_digits_zero_pad [of n 4 rest] by simp

lemma read_digits_6: "n < 1000000 \<Longrightarrow> read_digits 6 (zero_pad 6 n @ rest) = Some (n, rest)"
  using read_digits_zero_pad [of n 6 rest] by simp

lemma expect_cons: "expect c (c # rest) = Some rest"
  by (simp add: expect_def)

lemma read_year_iso:
  assumes "y < 1000000"
  shows "read_year (iso_year y @ rest) = Some (y, rest)"
proof (cases "y \<le> 9999")
  case True
  obtain c r where cr: "zero_pad 4 y = c # r"
    using length_zero_pad [of 4 y] by (cases "zero_pad 4 y") auto
  have "is_digit c"
    using zero_pad_digits [of 4 y] unfolding cr by simp
  then have "c \<noteq> CHR ''+''"
    by (auto simp: is_digit_def)
  then have "read_year (zero_pad 4 y @ rest) = read_digits 4 (zero_pad 4 y @ rest)"
    unfolding cr by (simp add: read_year_def)
  with True show ?thesis
    by (simp add: iso_year_def read_digits_4)
next
  case False
  with assms show ?thesis
    by (simp add: iso_year_def read_year_def read_digits_6)
qed

lemma MakeDate_of_time:
  assumes "t \<le> 8640000000000000"
  shows "MakeDate (YearFromDay (Day t))
           (MonthFromDay (InLeapYear (YearFromDay (Day t)))
              (Day t - DayFromYear (YearFromDay (Day t))) + 1)
           (DateFromDay (InLeapYear (YearFromDay (Day t)))
              (Day t - DayFromYear (YearFromDay (Day t))))
           (t div 3600000 mod 24) (t div 60000 mod 60) (t div 1000 mod 60) (t mod 1000)
         = Some t"
proof -
  define y where "y = YearFromDay (Day t)"
  define leap where "leap = InLeapYear y"
  define dy where "dy = Day t - DayFromYear y"
  define m where "m = MonthFromDay leap dy"
  define dt where "dt = DateFromDay leap dy"
  from YearFromDay_spec [of "Day t"]
  have y: "1970 \<le> y" "DayFromYear y \<le> Day t" "dy < 365 + leap"
    unfolding y_def leap_def dy_def by simp_all
  from month_date [OF _ y(3)] InLeapYear_cases [of y]
  have md: "m \<le> 11" "1 \<le> dt" "dt \<le> DaysInMonth leap (m + 1)"
      "DayOfMonthStart leap m + dt - 1 = dy"
    unfolding m_def dt_def leap_def by simp_all
  have d: "DayFromYear y + DayOfMonthStart leap m + dt - 1 = Day t"
    using md(2) md(4) y(2) unfolding dy_def by linarith
  have "t = Day t * msPerDay + t mod 86400000"
    by (simp add: Day_def msPerDay_def)
  then have "Day t * msPerDay
      + (t div 3600000 mod 24) * 3600000 + (t div 60000 mod 60) * 60000
      + (t div 1000 mod 60) * 1000 + t mod 1000 = t"
    using time_of_day [of t] by linarith
  then have "(DayFromYear y + DayOfMonthStart leap m + dt - 1) * msPerDay
      + (t div 3600000 mod 24) * 3600000 + (t div 60000 mod 60) * 60000
      + (t div 1000 mod 60) * 1000 + t mod 1000 = t"
    unfolding d .
  then have "MakeDate y (m + 1) dt (t div 3600000 mod 24) (t div 60000 mod 60)
      (t div 1000 mod 60) (t mod 1000) = Some t"
    using y(1) md(1-3) by (simp add: MakeDate_def leap_def)
  then show ?thesis
    unfolding m_def dt_def dy_def leap_def y_def .
qed

lemma field_bounds:
  assumes "t \<le> 8640000000000000"
  shows "YearFromDay (Day t) < 1000000"
    and "MonthFromDay (InLeapYear (YearFromDay (Day t)))
           (Day t - DayFromYear (YearFromDay (Day t))) + 1 < 100"
    and "DateFromDay (InLeapYear (YearFromDay (Day t)))
           (Day t - DayFromYear (YearFromDay (Day t))) < 100"
proof -
  have "Day t \<le> 100000000"
    using assms by (simp add: Day_def msPerDay_def)
  then show "YearFromDay (Day t) < 1000000"
    by (rule YearFromDay_upper)
  from YearFromDay_spec [of "Day t"]
  have "Day t - DayFromYear (YearFromDay (Day t)) < 365 + InLeapYear (YearFromDay (Day t))"
    by simp
  from month_date [OF InLeapYear_cases this]
  show "MonthFromDay (InLeapYear (YearFromDay (Day t)))
           (Day t - DayFromYear (YearFromDay (Day t))) + 1 < 100"
    and "DateFromDay (InLeapYear (YearFromDay (Day t)))
           (Day t - DayFromYear (YearFromDay (Day t))) < 100"
    using InLeapYear_cases [of "YearFromDay (Day t)"]
    by (auto simp: DaysInMonth_def split: if_splits)
qed

lemma Date_parse_toISOString:
  assumes "t \<le> 8640000000000000"
  shows "Date_parse (toISOString t) = Some t"
proof -
  have h: "t div 3600000 mod 24 < 100" "t div 60000 mod 60 < 100"
      "t div 1000 mod 60 < 100" "t mod 1000 < 1000"
    by (simp_all add: less_trans [OF mod_less_divisor])
  note b = field_bounds [OF assms]
  show ?thesis
    unfolding toISOString_def iso_of_year_def iso_format_def Date_parse_def
    apply (simp only: read_year_iso [OF b(1)] read_digits_2 [OF b(2)] read_digits_2 [OF b(3)]
        read_digits_2 [OF h(1)] read_digits_2 [OF h(2)] read_digits_2 [OF h(3)]
        read_digits_3 [OF h(4)] expect_cons MakeDate_of_time [OF assms]
        bind.bind_lunit case_prod_conv append.simps if_True)
    apply simp
    done
qed

lemma toISOString_0: "toISOString 0 = ''1970-01-01T00:00:00.000Z''"
  by (simp add: toISOString_def iso_of_year_def iso_format_def iso_year_def Day_def msPerDay_def
      YearFromDay_def year_from.simps DayFromYear_def InLeapYear_def DaysInYear_def
      MonthFromDay_def DateFromDay_def zero_pad.simps digit_char_def)

lemma parse_Number_toString: "parse_decimal (Number_toString n) = n"
proof (induction n rule: Number_toString.induct)
  case (1 n)
  show ?case
  proof (cases "n < 10")
    case True
    then show ?thesis
      by (subst Number_toString.simps) (simp add: parse_decimal_def digit_value_char)
  next
    case False
    with 1 show ?thesis
      by (subst Number_toString.simps) (simp add: parse_decimal_snoc digit_value_char)
  qed
qed

section \<open>The router\<close>

text \<open>The loop returns the first route that matches, in the order of the table, and
  nothing when none matches.\<close>

lemma scan_routes_find:
  "scan_routes rs path meth = map_option (match_of path) (find (route_matches path meth) rs)"
  by (induction rs) (auto simp: route_matches_def match_of_def split: option.splits)

lemma matchRoute_first_match:
  "matchRoute path meth = Some m \<longleftrightarrow>
     (\<exists>i < length routes. route_matches path meth (routes ! i) \<and> m = match_of path (routes ! i)
        \<and> (\<forall>j < i. \<not> route_matches path meth (routes ! j)))"
  unfolding matchRoute_def scan_routes_find
  by (auto simp: find_Some_iff)

lemma matchRoute_no_route:
  "matchRoute path meth = None \<longleftrightarrow> (\<forall>r \<in> set routes. \<not> route_matches path meth r)"
  unfolding matchRoute_def scan_routes_find
  by (auto simp: find_None_iff)

lemma scan_routes_skip:
  "meth \<noteq> route_method r \<Longrightarrow> scan_routes (r # rs) path meth = scan_routes rs path meth"
  by (simp split: option.splits)

lemma scan_routes_miss:
  "str_match path (route_path r) = None \<Longrightarrow>
     scan_routes (r # rs) path meth = scan_routes rs path meth"
  by simp

lemma scan_routes_hit:
  "str_match path (route_path r) = Some caps \<Longrightarrow> meth = route_method r \<Longrightarrow>
     scan_routes (r # rs) path meth
       = Some \<lparr>match_handler = route_handler r, match_name = route_name r, match_params = caps\<rparr>"
  by simp

text \<open>What each shape of pattern matches. A literal pattern matches its own text only; a
  pattern with a group matches its prefix, one non-empty segment without a slash, and its
  suffix, and captures the segment; the pattern without \<^verbatim>\<open>^\<close> matches every path that
  ends with a slash.\<close>

lemma match_here_literal: "match_here [Lit l] s = (if s = l then Some [] else None)"
  using append_take_drop_id [of "length l" s] by auto

lemma search_slash:
  "search [Lit ''/''] s = (if s \<noteq> [] \<and> last s = CHR ''/'' then Some [] else None)"
proof (induction s)
  case Nil
  then show ?case by simp
next
  case (Cons c s)
  then show ?case by (cases s) auto
qed

lemma str_match_root:
  "str_match path \<lparr>anchored = False, atoms = [Lit ''/'']\<rparr>
     = (if path \<noteq> [] \<and> last path = CHR ''/'' then Some [] else None)"
  by (simp add: str_match_def search_slash)

lemma matchRoute_trailing_slash:
  assumes "path \<noteq> []" and "last path = CHR ''/''"
  shows "matchRoute path ''GET'' = Some \<lparr>match_handler = Root, match_name = None, match_params = []\<rparr>"
  using assms by (simp add: matchRoute_def routes_def str_match_root)

lemma first_some_map_None: "(\<And>x. x \<in> set xs \<Longrightarrow> f x = None) \<Longrightarrow> first_some (map f xs) = None"
  by (induction xs) auto

lemma first_some_skip:
  "(\<And>x. x \<in> set xs \<Longrightarrow> f x = None) \<Longrightarrow> first_some (map f (y # xs)) = f y"
  by (cases "f y") (simp_all add: first_some_map_None)

lemma rev_upt_from_1: "0 < n \<Longrightarrow> rev [1..<Suc n] = n # rev [1..<n]"
  by simp

lemma run_length_le: "run_length s \<le> length s"
  by (simp add: run_length_def length_takeWhile_le)

lemma run_length_all: "run_length s = length s \<longleftrightarrow> CHR ''/'' \<notin> set s"
  unfolding run_length_def by (induction s) auto

lemma run_length_append:
  "CHR ''/'' \<notin> set seg \<Longrightarrow> run_length (seg @ CHR ''/'' # t) = length seg"
  unfolding run_length_def by (induction seg) auto

lemma take_run_length: "CHR ''/'' \<notin> set (take (run_length s) s)"
  unfolding run_length_def by (induction s) auto

lemma drop_before_run:
  assumes "k < run_length s"
  shows "drop k s \<noteq> [] \<and> hd (drop k s) \<noteq> CHR ''/''"
proof -
  have "k < length s" using assms run_length_le [of s] by simp
  moreover have "s ! k \<in> set (takeWhile (\<lambda>c. c \<noteq> CHR ''/'') s)"
    using assms unfolding run_length_def
    by (metis nth_mem takeWhile_nth)
  then have "s ! k \<noteq> CHR ''/''"
    by (auto dest: set_takeWhileD)
  ultimately show ?thesis
    by (simp add: hd_drop_conv_nth)
qed

lemma match_here_segment_end:
  "match_here [Segment] s = (if s \<noteq> [] \<and> CHR ''/'' \<notin> set s then Some [s] else None)"
proof (cases "run_length s = 0")
  case True
  then have "s = [] \<or> CHR ''/'' \<in> set s"
    using run_length_all [of s] by (cases s) auto
  with True show ?thesis by (auto simp: run_length_def)
next
  case False
  then have n: "0 < run_length s" by simp
  have rest: "\<And>k. k \<in> set (rev [1..<run_length s]) \<Longrightarrow>
      map_option ((#) (take k s)) (match_here [] (drop k s)) = None"
    using run_length_le [of s] by auto
  have "match_here [Segment] s
      = map_option ((#) (take (run_length s) s)) (match_here [] (drop (run_length s) s))"
    using first_some_skip [of "rev [1..<run_length s]"
        "\<lambda>k. map_option ((#) (take k s)) (match_here [] (drop k s))" "run_length s", OF rest]
      rev_upt_from_1 [OF n]
    by (simp add: run_length_def)
  then show ?thesis
    using run_length_all [of s] run_length_le [of s] n by (cases s) auto
qed

lemma match_here_segment_slash:
  "match_here (Segment # Lit (CHR ''/'' # t) # as) s
     = (if 0 < run_length s
        then map_option ((#) (take (run_length s) s))
               (match_here (Lit (CHR ''/'' # t) # as) (drop (run_length s) s))
        else None)"
proof (cases "run_length s = 0")
  case True
  then show ?thesis by (simp add: run_length_def)
next
  case False
  then have n: "0 < run_length s" by simp
  have rest: "\<And>k. k \<in> set (rev [1..<run_length s]) \<Longrightarrow>
      map_option ((#) (take k s)) (match_here (Lit (CHR ''/'' # t) # as) (drop k s)) = None"
  proof -
    fix k assume "k \<in> set (rev [1..<run_length s])"
    then have "k < run_length s" by simp
    from drop_before_run [OF this]
    have "take (Suc (length t)) (drop k s) \<noteq> CHR ''/'' # t"
      by (cases "drop k s") auto
    then show "map_option ((#) (take k s))
        (match_here (Lit (CHR ''/'' # t) # as) (drop k s)) = None"
      by simp
  qed
  show ?thesis
    using first_some_skip [of "rev [1..<run_length s]"
        "\<lambda>k. map_option ((#) (take k s)) (match_here (Lit (CHR ''/'' # t) # as) (drop k s))"
        "run_length s", OF rest]
      rev_upt_from_1 [OF n] n
    by (simp add: run_length_def)
qed

lemma match_here_prefix:
  "match_here (Lit l # as) s = Some caps \<longleftrightarrow> (\<exists>r. s = l @ r \<and> match_here as r = Some caps)"
proof
  assume "match_here (Lit l # as) s = Some caps"
  then have "take (length l) s = l" "match_here as (drop (length l) s) = Some caps"
    by (auto split: if_splits)
  then show "\<exists>r. s = l @ r \<and> match_here as r = Some caps"
    using append_take_drop_id [of "length l" s] by metis
next
  assume "\<exists>r. s = l @ r \<and> match_here as r = Some caps"
  then show "match_here (Lit l # as) s = Some caps" by auto
qed

lemma str_match_segment:
  "match_here [Lit l, Segment] s = Some caps \<longleftrightarrow>
     (\<exists>seg. s = l @ seg \<and> seg \<noteq> [] \<and> CHR ''/'' \<notin> set seg \<and> caps = [seg])"
  unfolding match_here_prefix match_here_segment_end by auto

lemma str_match_segment_suffix:
  "match_here [Lit l, Segment, Lit (CHR ''/'' # t)] s = Some caps \<longleftrightarrow>
     (\<exists>seg. s = l @ seg @ CHR ''/'' # t \<and> seg \<noteq> [] \<and> CHR ''/'' \<notin> set seg \<and> caps = [seg])"
proof -
  have "match_here [Segment, Lit (CHR ''/'' # t)] r = Some caps \<longleftrightarrow>
      (\<exists>seg. r = seg @ CHR ''/'' # t \<and> seg \<noteq> [] \<and> CHR ''/'' \<notin> set seg \<and> caps = [seg])" for r
  proof
    assume m: "match_here [Segment, Lit (CHR ''/'' # t)] r = Some caps"
    then have n: "0 < run_length r"
      and c: "map_option ((#) (take (run_length r) r))
          (match_here [Lit (CHR ''/'' # t)] (drop (run_length r) r)) = Some caps"
      unfolding match_here_segment_slash by (auto split: if_splits)
    from c have d: "drop (run_length r) r = CHR ''/'' # t" and caps: "caps = [take (run_length r) r]"
      unfolding match_here_literal by (auto split: if_splits)
    have "r = take (run_length r) r @ CHR ''/'' # t"
      using append_take_drop_id [of "run_length r" r] d by simp
    moreover have "take (run_length r) r \<noteq> []"
      using n run_length_le [of r] by auto
    ultimately show "\<exists>seg. r = seg @ CHR ''/'' # t \<and> seg \<noteq> [] \<and> CHR ''/'' \<notin> set seg \<and> caps = [seg]"
      using take_run_length [of r] caps by blast
  next
    assume "\<exists>seg. r = seg @ CHR ''/'' # t \<and> seg \<noteq> [] \<and> CHR ''/'' \<notin> set seg \<and> caps = [seg]"
    then obtain seg where r: "r = seg @ CHR ''/'' # t" and s: "seg \<noteq> []" "CHR ''/'' \<notin> set seg"
      and caps: "caps = [seg]" by blast
    have "run_length r = length seg"
      unfolding r by (rule run_length_append [OF s(2)])
    then show "match_here [Segment, Lit (CHR ''/'' # t)] r = Some caps"
      unfolding match_here_segment_slash match_here_literal using r s caps by simp
  qed
  then show ?thesis
    unfolding match_here_prefix [of l] by auto
qed

lemma match_segment:
  assumes "seg \<noteq> []" and "CHR ''/'' \<notin> set seg"
  shows "match_here [Lit l, Segment] (l @ seg) = Some [seg]"
  using assms str_match_segment [of l "l @ seg" "[seg]"] by simp

lemma match_segment_suffix:
  assumes "seg \<noteq> []" and "CHR ''/'' \<notin> set seg"
  shows "match_here [Lit l, Segment, Lit (CHR ''/'' # t)] (l @ seg @ CHR ''/'' # t) = Some [seg]"
  using assms str_match_segment_suffix [of l t "l @ seg @ CHR ''/'' # t" "[seg]"] by simp

lemma no_segment_suffix:
  assumes "CHR ''/'' \<notin> set seg"
  shows "match_here [Lit l, Segment, Lit (CHR ''/'' # t)] (l @ seg) = None"
proof (cases "match_here [Lit l, Segment, Lit (CHR ''/'' # t)] (l @ seg)")
  case None
  then show ?thesis .
next
  case (Some caps)
  then obtain seg' where "l @ seg = l @ seg' @ CHR ''/'' # t"
    unfolding str_match_segment_suffix by blast
  then have "CHR ''/'' \<in> set seg" by auto
  with assms show ?thesis by simp
qed

lemma no_segment:
  "match_here [Lit l, Segment] (l @ seg @ CHR ''/'' # t) = None"
proof (cases "match_here [Lit l, Segment] (l @ seg @ CHR ''/'' # t)")
  case None
  then show ?thesis .
next
  case (Some caps)
  then obtain seg' where "l @ seg @ CHR ''/'' # t = l @ seg'" "CHR ''/'' \<notin> set seg'"
    unfolding str_match_segment by blast
  then show ?thesis by auto
qed

lemma not_root:
  assumes "seg \<noteq> []" and "CHR ''/'' \<notin> set seg"
  shows "search [Lit ''/''] (l @ seg) = None"
proof -
  have "last seg \<in> set seg"
    using assms(1) by (rule last_in_set)
  with assms(2) have "last seg \<noteq> CHR ''/''"
    by metis
  with assms(1) show ?thesis
    by (simp add: search_slash)
qed

text \<open>The routing table, route by route.\<close>

lemmas route_eval = matchRoute_def routes_def str_match_def

lemma matchRoute_project:
  assumes "seg \<noteq> []" and "CHR ''/'' \<notin> set seg"
  shows "matchRoute (''/projects/'' @ seg) ''GET''
      = Some \<lparr>match_handler = GetProject, match_name = None, match_params = [seg]\<rparr>"
    and "matchRoute (''/projects/'' @ seg) ''PUT''
      = Some \<lparr>match_handler = UpdateProject, match_name = None, match_params = [seg]\<rparr>"
    and "matchRoute (''/projects/'' @ seg) ''DELETE''
      = Some \<lparr>match_handler = DeleteProject, match_name = None, match_params = [seg]\<rparr>"
proof -
  have r: "search [Lit ''/''] (''/projects/'' @ seg) = None"
    by (rule not_root [OF assms])
  have l: "match_here [Lit ''/projects''] (''/projects/'' @ seg) = None"
    unfolding match_here_literal by simp
  have m: "match_here [Lit ''/projects/'', Segment] (''/projects/'' @ seg) = Some [seg]"
    by (rule match_segment [OF assms])
  show "matchRoute (''/projects/'' @ seg) ''GET''
      = Some \<lparr>match_handler = GetProject, match_name = None, match_params = [seg]\<rparr>"
    unfolding matchRoute_def routes_def
    by (simp add: str_match_def r l m del: match_here.simps search.simps append.simps)
  show "matchRoute (''/projects/'' @ seg) ''PUT''
      = Some \<lparr>match_handler = UpdateProject, match_name = None, match_params = [seg]\<rparr>"
    unfolding matchRoute_def routes_def
    by (simp add: str_match_def r l m del: match_here.simps search.simps append.simps)
  show "matchRoute (''/projects/'' @ seg) ''DELETE''
      = Some \<lparr>match_handler = DeleteProject, match_name = None, match_params = [seg]\<rparr>"
    unfolding matchRoute_def routes_def
    by (simp add: str_match_def r l m del: match_here.simps search.simps append.simps)
qed

lemma matchRoute_project_todos:
  assumes "seg \<noteq> []" and "CHR ''/'' \<notin> set seg"
  shows "matchRoute (''/projects/'' @ seg @ ''/todos'') ''GET''
      = Some \<lparr>match_handler = ListTodos, match_name = None, match_params = [seg]\<rparr>"
    and "matchRoute (''/projects/'' @ seg @ ''/todos'') ''POST''
      = Some \<lparr>match_handler = CreateTodo, match_name = None, match_params = [seg]\<rparr>"
proof -
  have r: "search [Lit ''/''] (''/projects/'' @ seg @ ''/todos'') = None"
    using not_root [of "''todos''" "''/projects/'' @ seg @ ''/''"] by simp
  have l: "match_here [Lit ''/projects''] (''/projects/'' @ seg @ ''/todos'') = None"
    unfolding match_here_literal by simp
  have n: "match_here [Lit ''/projects/'', Segment] (''/projects/'' @ seg @ ''/todos'') = None"
    using no_segment [of "''/projects/''" seg "''todos''"] by simp
  have m: "match_here [Lit ''/projects/'', Segment, Lit ''/todos'']
      (''/projects/'' @ seg @ ''/todos'') = Some [seg]"
    using match_segment_suffix [OF assms, of "''/projects/''" "''todos''"] by simp
  show "matchRoute (''/projects/'' @ seg @ ''/todos'') ''GET''
      = Some \<lparr>match_handler = ListTodos, match_name = None, match_params = [seg]\<rparr>"
    unfolding matchRoute_def routes_def
    by (simp add: str_match_def r l n m del: match_here.simps search.simps append.simps)
  show "matchRoute (''/projects/'' @ seg @ ''/todos'') ''POST''
      = Some \<lparr>match_handler = CreateTodo, match_name = None, match_params = [seg]\<rparr>"
    unfolding matchRoute_def routes_def
    by (simp add: str_match_def r l n m del: match_here.simps search.simps append.simps)
qed

lemma matchRoute_todo:
  assumes "seg \<noteq> []" and "CHR ''/'' \<notin> set seg"
  shows "matchRoute (''/todos/'' @ seg) ''GET''
      = Some \<lparr>match_handler = GetTodo, match_name = None, match_params = [seg]\<rparr>"
    and "matchRoute (''/todos/'' @ seg) ''PUT''
      = Some \<lparr>match_handler = UpdateTodo, match_name = None, match_params = [seg]\<rparr>"
    and "matchRoute (''/todos/'' @ seg) ''DELETE''
      = Some \<lparr>match_handler = DeleteTodo, match_name = None, match_params = [seg]\<rparr>"
proof -
  have r: "search [Lit ''/''] (''/todos/'' @ seg) = None"
    by (rule not_root [OF assms])
  have l: "match_here [Lit ''/projects''] (''/todos/'' @ seg) = None"
    "match_here [Lit ''/todos''] (''/todos/'' @ seg) = None"
    unfolding match_here_literal by simp_all
  have p: "match_here [Lit ''/projects/'', Segment] (''/todos/'' @ seg) = None"
    "match_here [Lit ''/projects/'', Segment, Lit ''/todos''] (''/todos/'' @ seg) = None"
    by simp_all
  have m: "match_here [Lit ''/todos/'', Segment] (''/todos/'' @ seg) = Some [seg]"
    by (rule match_segment [OF assms])
  show "matchRoute (''/todos/'' @ seg) ''GET''
      = Some \<lparr>match_handler = GetTodo, match_name = None, match_params = [seg]\<rparr>"
    unfolding matchRoute_def routes_def
    by (simp add: str_match_def r l p m del: match_here.simps search.simps append.simps)
  show "matchRoute (''/todos/'' @ seg) ''PUT''
      = Some \<lparr>match_handler = UpdateTodo, match_name = None, match_params = [seg]\<rparr>"
    unfolding matchRoute_def routes_def
    by (simp add: str_match_def r l p m del: match_here.simps search.simps append.simps)
  show "matchRoute (''/todos/'' @ seg) ''DELETE''
      = Some \<lparr>match_handler = DeleteTodo, match_name = None, match_params = [seg]\<rparr>"
    unfolding matchRoute_def routes_def
    by (simp add: str_match_def r l p m del: match_here.simps search.simps append.simps)
qed

lemma matchRoute_fixed:
  "matchRoute ''/'' ''GET'' = Some \<lparr>match_handler = Root, match_name = None, match_params = []\<rparr>"
  "matchRoute ''/projects'' ''GET''
     = Some \<lparr>match_handler = ListProjects, match_name = None, match_params = []\<rparr>"
  "matchRoute ''/projects'' ''POST''
     = Some \<lparr>match_handler = CreateProject, match_name = None, match_params = []\<rparr>"
  "matchRoute ''/todos'' ''GET''
     = Some \<lparr>match_handler = ListAllTodos, match_name = None, match_params = []\<rparr>"
  "matchRoute ''/login'' ''POST''
     = Some \<lparr>match_handler = Login, match_name = Some ''login'', match_params = []\<rparr>"
  by (simp_all add: route_eval)

lemma matchRoute_no_normalisation:
  "matchRoute ''/projects/'' ''POST'' = None"
  "matchRoute ''/projects/1/'' ''PUT'' = None"
  "matchRoute ''/todos/1/extra'' ''GET'' = None"
  "matchRoute ''/api/projects'' ''GET'' = None"
  "matchRoute ''/projects'' ''PATCH'' = None"
  by (simp_all add: route_eval)

section \<open>The handlers\<close>

lemma updateTodo_found:
  assumes "Map_get (todos s) todoId = Some todo"
  shows "updateTodo (todoId # rest) body s =
    (json (PTodo (updated_todo todo body)) 200,
     s\<lparr>todos := Map_set (todos s) todoId (updated_todo todo body)\<rparr>)"
  using assms by (simp add: updateTodo_def)

lemma createTodo_unknown:
  "\<not> Map_has (projects s) projectId \<Longrightarrow> createTodo clock (projectId # rest) body s = (Inr notFound, s)"
  by (simp add: createTodo_def)

lemma createTodo_missing_title:
  assumes "Map_has (projects s) projectId"
    and "js_String (nullish (get_prop body ''title'') (JStr [])) = Inr str"
    and "js_trim str = []"
  shows "createTodo clock (projectId # rest) body s = (Inr (plain ''Missing todo title'' 400), s)"
  using assms by (simp add: createTodo_def)

lemma createTodo_created:
  assumes "Map_has (projects s) projectId"
    and "js_String (nullish (get_prop body ''title'') (JStr [])) = Inr str"
    and "js_trim str \<noteq> []"
  shows "createTodo clock (projectId # rest) body s =
    (Inr (json (PTodo (new_todo (Number_toString (todoCounter s)) projectId (js_trim str) body
             (toISOString clock))) 201),
     s\<lparr>todos := Map_set (todos s) (Number_toString (todoCounter s))
            (new_todo (Number_toString (todoCounter s)) projectId (js_trim str) body
               (toISOString clock)),
       todoCounter := js_increment (todoCounter s)\<rparr>)"
  using assms by (simp add: createTodo_def Let_def)

lemma deleteProject_found:
  "Map_has (projects s) projectId \<Longrightarrow>
     deleteProject (projectId # rest) s
       = (no_content, s\<lparr>projects := Map_delete (projects s) projectId\<rparr>)"
  by (simp add: deleteProject_def)

lemma deleteProject_todos: "todos (snd (deleteProject params s)) = todos s"
  by (cases params) (simp_all add: deleteProject_def)

lemma deleteProject_keeps_tokens:
  "validJwts (snd (deleteProject params s)) = validJwts s"
  "projectCounter (snd (deleteProject params s)) = projectCounter s"
  by (simp_all add: deleteProject_def split: list.splits)

lemma createProject_created:
  assumes "createProject clock body s = (Inr r, s')" and "res_status r = 201"
  shows "\<exists>str. js_String (nullish (get_prop body ''name'') (JStr [])) = Inr str
    \<and> js_trim str \<noteq> []
    \<and> r = json (PProject \<lparr>project_id = Number_toString (projectCounter s),
              project_name = js_trim str, project_createdAt = toISOString clock\<rparr>) 201
    \<and> s' = s\<lparr>projects := Map_set (projects s) (Number_toString (projectCounter s))
              \<lparr>project_id = Number_toString (projectCounter s),
               project_name = js_trim str, project_createdAt = toISOString clock\<rparr>,
            projectCounter := js_increment (projectCounter s)\<rparr>"
  using assms
  by (auto simp: createProject_def Let_def plain_def split: sum.splits if_splits)

lemma createProject_keeps_registry:
  "validJwts (snd (createProject clock body s)) = validJwts s"
  by (simp add: createProject_def Let_def split: sum.splits)

section \<open>The request pipeline\<close>

text \<open>A request on a protected route is answered by the auth gate when the gate rejects it,
  and by the handler of the route otherwise.\<close>

lemma handler_authorised:
  assumes "matchRoute (req_pathname req) (req_method req) = Some m"
    and "match_name m = None"
    and "authorised req s"
  shows "handler sign req s
     = invoke (match_handler m) sign req
         (if req_method req = ''POST'' \<or> req_method req = ''PUT''
          then parseBody (req_json req) else JNull)
         (match_params m) s"
  using assms by (simp add: handler_def authorised_def)

lemma handler_unauthorised:
  assumes "matchRoute (req_pathname req) (req_method req) = Some m"
    and "match_name m = None"
    and "\<not> authorised req s"
  shows "handler sign req s
     = (Inr (authHandler (req_authorization req) (clock_gate req) s), s)"
  using assms by (simp add: handler_def authorised_def)

lemma authorised_registry:
  assumes "validJwts s' = validJwts s"
  shows "authorised req s' = authorised req s"
  unfolding authorised_def authHandler_def assms ..

lemma handler_cases:
  "handler sign req s = (Inr notFound, s)
   \<or> handler sign req s = (Inr (authHandler (req_authorization req) (clock_gate req) s), s)
   \<or> (\<exists>h body params. handler sign req s = invoke h sign req body params s)"
  unfolding handler_def by (auto split: option.splits)

lemma handler_create_project:
  assumes "req_method req = ''POST''" and "req_pathname req = ''/projects''"
    and "authorised req s"
  shows "handler sign req s = createProject (clock_handler req) (parseBody (req_json req)) s"
  using handler_authorised [OF _ _ assms(3), of _ sign] matchRoute_fixed(3) assms(1,2)
  by simp

lemma handler_get_project:
  assumes "req_method req = ''GET''"
    and "req_pathname req = ''/projects/'' @ projectId"
    and "projectId \<noteq> []" and "CHR ''/'' \<notin> set projectId"
    and "authorised req s"
  shows "handler sign req s = (Inr (getProject [projectId] s), s)"
  using handler_authorised [OF _ _ assms(5), of _ sign]
    matchRoute_project(1) [OF assms(3,4)] assms(1,2)
  by simp

lemma handler_put_project:
  assumes "req_method req = ''PUT''"
    and "req_pathname req = ''/projects/'' @ projectId"
    and "projectId \<noteq> []" and "CHR ''/'' \<notin> set projectId"
    and "authorised req s"
  shows "handler sign req s = updateProject [projectId] (parseBody (req_json req)) s"
  using handler_authorised [OF _ _ assms(5), of _ sign]
    matchRoute_project(2) [OF assms(3,4)] assms(1,2)
  by simp

lemma handler_delete_project:
  assumes "req_method req = ''DELETE''"
    and "req_pathname req = ''/projects/'' @ projectId"
    and "projectId \<noteq> []" and "CHR ''/'' \<notin> set projectId"
    and "authorised req s"
  shows "handler sign req s
     = (Inr (fst (deleteProject [projectId] s)), snd (deleteProject [projectId] s))"
  using handler_authorised [OF _ _ assms(5), of _ sign]
    matchRoute_project(3) [OF assms(3,4)] assms(1,2)
  by simp

lemma handler_create_todo:
  assumes "req_method req = ''POST''"
    and "req_pathname req = ''/projects/'' @ projectId @ ''/todos''"
    and "projectId \<noteq> []" and "CHR ''/'' \<notin> set projectId"
    and "authorised req s"
  shows "handler sign req s
     = createTodo (clock_handler req) [projectId] (parseBody (req_json req)) s"
  using handler_authorised [OF _ _ assms(5), of _ sign]
    matchRoute_project_todos(2) [OF assms(3,4)] assms(1,2)
  by simp

lemma handler_get_todo:
  assumes "req_method req = ''GET''"
    and "req_pathname req = ''/todos/'' @ todoId"
    and "todoId \<noteq> []" and "CHR ''/'' \<notin> set todoId"
    and "authorised req s"
  shows "handler sign req s = (Inr (getTodo [todoId] s), s)"
  using handler_authorised [OF _ _ assms(5), of _ sign]
    matchRoute_todo(1) [OF assms(3,4)] assms(1,2)
  by simp

lemma handler_put_todo:
  assumes "req_method req = ''PUT''"
    and "req_pathname req = ''/todos/'' @ todoId"
    and "todoId \<noteq> []" and "CHR ''/'' \<notin> set todoId"
    and "authorised req s"
  shows "handler sign req s
     = (Inr (fst (updateTodo [todoId] (parseBody (req_json req)) s)),
        snd (updateTodo [todoId] (parseBody (req_json req)) s))"
  using handler_authorised [OF _ _ assms(5), of _ sign]
    matchRoute_todo(2) [OF assms(3,4)] assms(1,2)
  by simp

text \<open>The example requests, and the example state as a state of the server.\<close>

lemma example_authorised:
  "authHandler (Some ''Bearer token'') 0 example_state = json (PMessage ''Token is valid'') 200"
  by (simp add: authHandler_def example_state_def Map_get_def)

lemma handler_login_request:
  "handler example_signer login_request s
     = (Inr (json (PToken ''token'' 3600000) 200),
        s\<lparr>validJwts := Map_set (validJwts s) ''token'' 3600000\<rparr>)"
proof -
  have m: "matchRoute ''/login'' ''POST''
      = Some \<lparr>match_handler = Login, match_name = Some ''login'', match_params = []\<rparr>"
    by (simp add: route_eval)
  have a: "atob ''YWRtaW46aHVudGVyMg=='' = Inr ''admin:hunter2''"
    by (simp add: atob_def strip_padding_def ascii_whitespace_def b64_value_def char_of_def
        bit_0 Let_def)
  show ?thesis
    by (simp add: handler_def login_request_def m login_def a USERNAME_def PASSWORD_def
        example_signer_def Let_def)
qed

lemma handler_create_request:
  assumes "Map_get (validJwts s) ''token'' = Some 3600000"
  shows "handler sign create_request s
     = (Inr (json (PProject \<lparr>project_id = Number_toString (projectCounter s),
               project_name = ''Groceries'',
               project_createdAt = ''1970-01-01T00:00:00.000Z''\<rparr>) 201),
        s\<lparr>projects := Map_set (projects s) (Number_toString (projectCounter s))
              \<lparr>project_id = Number_toString (projectCounter s),
               project_name = ''Groceries'',
               project_createdAt = ''1970-01-01T00:00:00.000Z''\<rparr>,
          projectCounter := js_increment (projectCounter s)\<rparr>)"
proof -
  have m: "matchRoute ''/projects'' ''POST''
      = Some \<lparr>match_handler = CreateProject, match_name = None, match_params = []\<rparr>"
    by (simp add: route_eval)
  have a: "authHandler (Some ''Bearer token'') 0 s = json (PMessage ''Token is valid'') 200"
    using assms by (simp add: authHandler_def)
  show ?thesis
    by (simp add: handler_def create_request_def m a json_def parseBody_def createProject_def
        js_trim_Groceries toISOString_0 Let_def)
qed

lemma handler_delete_request:
  assumes "Map_get (validJwts s) ''token'' = Some 3600000"
  shows "handler sign delete_request s
     = (Inr (fst (deleteProject [''1''] s)), snd (deleteProject [''1''] s))"
proof -
  have m: "matchRoute ''/projects/1'' ''DELETE''
      = Some \<lparr>match_handler = DeleteProject, match_name = None, match_params = [''1'']\<rparr>"
    by (simp add: route_eval)
  have a: "authHandler (Some ''Bearer token'') 0 s = json (PMessage ''Token is valid'') 200"
    using assms by (simp add: authHandler_def)
  show ?thesis
    by (simp add: handler_def delete_request_def m a json_def)
qed

lemma example_state_reachable:
  "snd (run example_signer [login_request, create_request, create_todo_request] initial)
     = example_state"
proof -
  define s1 where "s1 = initial\<lparr>validJwts := [(''token'', 3600000)]\<rparr>"
  define s2 where "s2 = s1\<lparr>projects := [(''1'', example_project)], projectCounter := 2\<rparr>"
  have 1: "handler example_signer login_request initial
      = (Inr (json (PToken ''token'' 3600000) 200), s1)"
    by (simp add: handler_login_request s1_def initial_def)
  have t1: "Map_get (validJwts s1) ''token'' = Some 3600000"
    by (simp add: s1_def Map_get_def)
  have 2: "snd (handler example_signer create_request s1) = s2"
    unfolding handler_create_request [OF t1]
    by (simp add: s1_def s2_def initial_def Number_toString_1 example_project_def
        js_increment_def)
  have a: "authorised create_todo_request s2"
    by (simp add: authorised_def authHandler_def create_todo_request_def s2_def s1_def
        Map_get_def json_def)
  have p: "Map_has (projects s2) ''1''"
    by (simp add: s2_def Map_has_def)
  have t: "js_String (nullish (get_prop (JObj [(''title'', JStr ''Milk'')]) ''title'') (JStr []))
      = Inr ''Milk''"
    by simp
  have n: "js_trim ''Milk'' \<noteq> []"
    by (simp add: js_trim_Milk)
  have h: "handler example_signer create_todo_request s2
      = createTodo 0 [''1''] (JObj [(''title'', JStr ''Milk'')]) s2"
    using handler_create_todo [of create_todo_request "''1''" s2 example_signer] a
    by (simp add: create_todo_request_def parseBody_def)
  have 3: "snd (handler example_signer create_todo_request s2) = example_state"
    unfolding h createTodo_created [OF p t n]
    by (simp add: s2_def s1_def initial_def example_state_def example_todo_def new_todo_def
        js_trim_Milk toISOString_0 Number_toString_1 js_increment_def if_string_def)
  show ?thesis
    by (simp add: 1 2 3)
qed

section \<open>C1: the auth gate and the expiry of a token\<close>

lemma authHandler_bearer:
  "authHandler (Some (''Bearer '' @ token)) now s =
     (case Map_get (validJwts s) token of
        None \<Rightarrow> json (PError ''Invalid token'') 401
      | Some expMs \<Rightarrow>
          if expMs = 0 \<or> expMs < now then json (PError ''Invalid token'') 401
          else json (PMessage ''Token is valid'') 200)"
  by (simp add: authHandler_def)

text \<open>  Claim C1, as the code has it. For a request carrying the bearer token \<open>token\<close>, the auth
  gate answers 401 Invalid token exactly when the token is not in the registry, or its
  recorded expiry is strictly before the current time (or is 0, which the login handler
  never records); otherwise it answers 200. A request made at the very millisecond of the
  expiry is accepted; one made any later is rejected. On a protected route the server
  returns the gate's 401 and leaves the state as it was, and hands an accepted request to
  the handler of the route.\<close>

theorem authHandler_rejects_iff:
  "(authHandler (Some (''Bearer '' @ token)) now s = json (PError ''Invalid token'') 401)
     = (Map_get (validJwts s) token = None
        \<or> (\<exists>expMs. Map_get (validJwts s) token = Some expMs \<and> (expMs = 0 \<or> expMs < now)))
   \<and> (authHandler (Some (''Bearer '' @ token)) now s = json (PMessage ''Token is valid'') 200)
     = (\<exists>expMs. Map_get (validJwts s) token = Some expMs \<and> 0 < expMs \<and> now \<le> expMs)
   \<and> (res_status (authHandler (Some (''Bearer '' @ token)) now s) = 401
        \<or> res_status (authHandler (Some (''Bearer '' @ token)) now s) = 200)
   \<and> (\<forall>expMs. Map_get (validJwts s) token = Some expMs \<longrightarrow> 0 < expMs \<longrightarrow> now = expMs \<longrightarrow>
         authHandler (Some (''Bearer '' @ token)) now s = json (PMessage ''Token is valid'') 200)
   \<and> (\<forall>expMs. Map_get (validJwts s) token = Some expMs \<longrightarrow> expMs < now \<longrightarrow>
         authHandler (Some (''Bearer '' @ token)) now s = json (PError ''Invalid token'') 401)
   \<and> (\<forall>m. matchRoute (req_pathname req) (req_method req) = Some m \<longrightarrow> match_name m = None
         \<longrightarrow> req_authorization req = Some (''Bearer '' @ token) \<longrightarrow> clock_gate req = now
         \<longrightarrow> authHandler (Some (''Bearer '' @ token)) now s = json (PError ''Invalid token'') 401
         \<longrightarrow> handler sign req s = (Inr (json (PError ''Invalid token'') 401), s))
   \<and> (\<forall>m. matchRoute (req_pathname req) (req_method req) = Some m \<longrightarrow> match_name m = None
         \<longrightarrow> req_authorization req = Some (''Bearer '' @ token) \<longrightarrow> clock_gate req = now
         \<longrightarrow> authHandler (Some (''Bearer '' @ token)) now s = json (PMessage ''Token is valid'') 200
         \<longrightarrow> handler sign req s
               = invoke (match_handler m) sign req
                   (if req_method req = ''POST'' \<or> req_method req = ''PUT''
                    then parseBody (req_json req) else JNull)
                   (match_params m) s)"
proof -
  have gate: "(authHandler (Some (''Bearer '' @ token)) now s = json (PError ''Invalid token'') 401)
     = (Map_get (validJwts s) token = None
        \<or> (\<exists>expMs. Map_get (validJwts s) token = Some expMs \<and> (expMs = 0 \<or> expMs < now)))
   \<and> (authHandler (Some (''Bearer '' @ token)) now s = json (PMessage ''Token is valid'') 200)
     = (\<exists>expMs. Map_get (validJwts s) token = Some expMs \<and> 0 < expMs \<and> now \<le> expMs)
   \<and> (res_status (authHandler (Some (''Bearer '' @ token)) now s) = 401
        \<or> res_status (authHandler (Some (''Bearer '' @ token)) now s) = 200)
   \<and> (\<forall>expMs. Map_get (validJwts s) token = Some expMs \<longrightarrow> 0 < expMs \<longrightarrow> now = expMs \<longrightarrow>
         authHandler (Some (''Bearer '' @ token)) now s = json (PMessage ''Token is valid'') 200)
   \<and> (\<forall>expMs. Map_get (validJwts s) token = Some expMs \<longrightarrow> expMs < now \<longrightarrow>
         authHandler (Some (''Bearer '' @ token)) now s = json (PError ''Invalid token'') 401)"
    unfolding authHandler_bearer
    by (cases "Map_get (validJwts s) token") (auto simp: json_def)
  have rej: "\<forall>m. matchRoute (req_pathname req) (req_method req) = Some m \<longrightarrow> match_name m = None
         \<longrightarrow> req_authorization req = Some (''Bearer '' @ token) \<longrightarrow> clock_gate req = now
         \<longrightarrow> authHandler (Some (''Bearer '' @ token)) now s = json (PError ''Invalid token'') 401
         \<longrightarrow> handler sign req s = (Inr (json (PError ''Invalid token'') 401), s)"
  proof (intro allI impI)
    fix m
    assume m: "matchRoute (req_pathname req) (req_method req) = Some m" "match_name m = None"
      and h: "req_authorization req = Some (''Bearer '' @ token)" "clock_gate req = now"
      and r: "authHandler (Some (''Bearer '' @ token)) now s = json (PError ''Invalid token'') 401"
    have "\<not> authorised req s"
      unfolding authorised_def h r by (simp add: json_def)
    from handler_unauthorised [OF m this, of sign]
    show "handler sign req s = (Inr (json (PError ''Invalid token'') 401), s)"
      unfolding h r .
  qed
  have acc: "\<forall>m. matchRoute (req_pathname req) (req_method req) = Some m \<longrightarrow> match_name m = None
         \<longrightarrow> req_authorization req = Some (''Bearer '' @ token) \<longrightarrow> clock_gate req = now
         \<longrightarrow> authHandler (Some (''Bearer '' @ token)) now s = json (PMessage ''Token is valid'') 200
         \<longrightarrow> handler sign req s
               = invoke (match_handler m) sign req
                   (if req_method req = ''POST'' \<or> req_method req = ''PUT''
                    then parseBody (req_json req) else JNull)
                   (match_params m) s"
  proof (intro allI impI)
    fix m
    assume m: "matchRoute (req_pathname req) (req_method req) = Some m" "match_name m = None"
      and h: "req_authorization req = Some (''Bearer '' @ token)" "clock_gate req = now"
      and r: "authHandler (Some (''Bearer '' @ token)) now s = json (PMessage ''Token is valid'') 200"
    have "authorised req s"
      unfolding authorised_def h r by (simp add: json_def)
    from handler_authorised [OF m this, of sign]
    show "handler sign req s
               = invoke (match_handler m) sign req
                   (if req_method req = ''POST'' \<or> req_method req = ''PUT''
                    then parseBody (req_json req) else JNull)
                   (match_params m) s" .
  qed
  from gate rej acc show ?thesis by blast
qed

text \<open>At the expiry the token is valid, one millisecond later it is not, and an unknown
  token never is.\<close>

theorem authHandler_rejects_iff_witness:
  "Map_get (validJwts example_state) ''token'' = Some 3600000
   \<and> authHandler (Some ''Bearer token'') 3600000 example_state
       = json (PMessage ''Token is valid'') 200
   \<and> authHandler (Some ''Bearer token'') 3600001 example_state
       = json (PError ''Invalid token'') 401
   \<and> authHandler (Some ''Bearer other'') 0 example_state = json (PError ''Invalid token'') 401
   \<and> handler example_signer (example_request\<lparr>clock_gate := 3600001\<rparr>) example_state
       = (Inr (json (PError ''Invalid token'') 401), example_state)"
proof -
  have h: "Map_get (validJwts example_state) ''token'' = Some 3600000"
    by (simp add: example_state_def Map_get_def)
  have n: "Map_get (validJwts example_state) ''other'' = None"
    by (simp add: example_state_def Map_get_def)
  have m: "matchRoute (req_pathname (example_request\<lparr>clock_gate := 3600001\<rparr>))
      (req_method (example_request\<lparr>clock_gate := 3600001\<rparr>))
      = Some \<lparr>match_handler = ListProjects, match_name = None, match_params = []\<rparr>"
    by (simp add: example_request_def matchRoute_fixed)
  have r: "req_authorization (example_request\<lparr>clock_gate := 3600001\<rparr>)
      = Some (''Bearer '' @ ''token'')"
    "clock_gate (example_request\<lparr>clock_gate := 3600001\<rparr>) = 3600001"
    by (simp_all add: example_request_def)
  note a = authHandler_rejects_iff [of "''token''" 3600000 example_state example_request
      example_signer]
  note b = authHandler_rejects_iff [of "''token''" 3600001 example_state
      "example_request\<lparr>clock_gate := 3600001\<rparr>" example_signer]
  note c = authHandler_rejects_iff [of "''other''" 0 example_state example_request
      example_signer]
  have 1: "authHandler (Some ''Bearer token'') 3600000 example_state
       = json (PMessage ''Token is valid'') 200"
    using a h by simp
  have 2: "authHandler (Some ''Bearer token'') 3600001 example_state
       = json (PError ''Invalid token'') 401"
    using b h by simp
  have 3: "authHandler (Some ''Bearer other'') 0 example_state = json (PError ''Invalid token'') 401"
    using c n by simp
  have 4: "handler example_signer (example_request\<lparr>clock_gate := 3600001\<rparr>) example_state
       = (Inr (json (PError ''Invalid token'') 401), example_state)"
    using b m r 2 by simp
  from h 1 2 3 4 show ?thesis by simp
qed

text \<open>Claim C1 as stated fails: after a login at time 0 the registry records the expiry
  3600000 for the token, and a request made at time 3600000, when the current time equals
  the recorded expiry, is not rejected.\<close>

theorem authHandler_accepts_at_expiry:
  "Map_get (validJwts (snd (login example_signer (Some ''Basic YWRtaW46aHVudGVyMg=='') 0
       initial))) ''token'' = Some 3600000
   \<and> authHandler (Some ''Bearer token'') 3600000
       (snd (login example_signer (Some ''Basic YWRtaW46aHVudGVyMg=='') 0 initial))
     = json (PMessage ''Token is valid'') 200
   \<and> res_status (authHandler (Some ''Bearer token'') 3600000
       (snd (login example_signer (Some ''Basic YWRtaW46aHVudGVyMg=='') 0 initial))) \<noteq> 401"
  by (simp add: json_def login_def atob_def strip_padding_def ascii_whitespace_def b64_value_def
      char_of_def bit_0 USERNAME_def PASSWORD_def example_signer_def initial_def
      authHandler_def Map_get_def Let_def)

section \<open>C2: the fields an update of a todo replaces\<close>

text \<open>  Claim C2. For every existing todo and every update body (any JSON value, null
  included), the update answers 200 with the updated todo and stores it; the title is
  replaced exactly when the body has a string \<^verbatim>\<open>title\<close>, completed exactly when it has a
  boolean \<^verbatim>\<open>completed\<close>, the due date exactly when it has a string \<^verbatim>\<open>dueDate\<close>; a field
  that is absent or of another type keeps its previous value and nothing is reported.
  The identifier, the owning project and the creation time never change.\<close>

theorem updateTodo_type_strict:
  assumes "Map_get (todos s) todoId = Some todo"
  shows "\<exists>updated.
      updateTodo (todoId # rest) body s
        = (json (PTodo updated) 200, s\<lparr>todos := Map_set (todos s) todoId updated\<rparr>)
    \<and> Map_get (todos (snd (updateTodo (todoId # rest) body s))) todoId = Some updated
    \<and> (\<forall>t. get_prop body ''title'' = Some (JStr t) \<longrightarrow> todo_title updated = t)
    \<and> ((\<forall>t. get_prop body ''title'' \<noteq> Some (JStr t)) \<longrightarrow> todo_title updated = todo_title todo)
    \<and> (\<forall>c. get_prop body ''completed'' = Some (JBool c) \<longrightarrow> todo_completed updated = c)
    \<and> ((\<forall>c. get_prop body ''completed'' \<noteq> Some (JBool c))
          \<longrightarrow> todo_completed updated = todo_completed todo)
    \<and> (\<forall>d. get_prop body ''dueDate'' = Some (JStr d) \<longrightarrow> todo_dueDate updated = Some d)
    \<and> ((\<forall>d. get_prop body ''dueDate'' \<noteq> Some (JStr d))
          \<longrightarrow> todo_dueDate updated = todo_dueDate todo)
    \<and> todo_id updated = todo_id todo
    \<and> todo_projectId updated = todo_projectId todo
    \<and> todo_createdAt updated = todo_createdAt todo"
proof (intro exI conjI)
  show "updateTodo (todoId # rest) body s
        = (json (PTodo (updated_todo todo body)) 200,
           s\<lparr>todos := Map_set (todos s) todoId (updated_todo todo body)\<rparr>)"
    by (rule updateTodo_found [OF assms])
  show "Map_get (todos (snd (updateTodo (todoId # rest) body s))) todoId
        = Some (updated_todo todo body)"
    by (simp add: updateTodo_found [OF assms] Map_get_set)
qed (simp_all add: updated_todo_def if_string_string if_string_other
       if_boolean_boolean if_boolean_other)

text \<open>The example of the claim: \<^verbatim>\<open>completed: "true"\<close> (a string) leaves completed as it
  was, while the string title of the same body is taken.\<close>

theorem updateTodo_type_strict_witness:
  "Map_get (todos example_state) ''1'' = Some example_todo
   \<and> (\<exists>updated.
        updateTodo [''1''] (JObj [(''completed'', JStr ''true''), (''title'', JStr ''Bread'')])
          example_state
          = (json (PTodo updated) 200,
             example_state\<lparr>todos := Map_set (todos example_state) ''1'' updated\<rparr>)
        \<and> todo_title updated = ''Bread''
        \<and> todo_completed updated = todo_completed example_todo
        \<and> todo_dueDate updated = todo_dueDate example_todo)"
proof -
  have h: "Map_get (todos example_state) ''1'' = Some example_todo"
    by (simp add: example_state_def Map_get_def)
  from updateTodo_type_strict [OF h, of "[]"
      "JObj [(''completed'', JStr ''true''), (''title'', JStr ''Bread'')]"]
  obtain updated where
    u: "updateTodo [''1''] (JObj [(''completed'', JStr ''true''), (''title'', JStr ''Bread'')])
          example_state
          = (json (PTodo updated) 200,
             example_state\<lparr>todos := Map_set (todos example_state) ''1'' updated\<rparr>)"
    and t: "\<forall>t. get_prop (JObj [(''completed'', JStr ''true''), (''title'', JStr ''Bread'')])
              ''title'' = Some (JStr t) \<longrightarrow> todo_title updated = t"
    and c: "(\<forall>c. get_prop (JObj [(''completed'', JStr ''true''), (''title'', JStr ''Bread'')])
              ''completed'' \<noteq> Some (JBool c))
            \<longrightarrow> todo_completed updated = todo_completed example_todo"
    and d: "(\<forall>d. get_prop (JObj [(''completed'', JStr ''true''), (''title'', JStr ''Bread'')])
              ''dueDate'' \<noteq> Some (JStr d))
            \<longrightarrow> todo_dueDate updated = todo_dueDate example_todo"
    by blast
  from t have "todo_title updated = ''Bread''" by simp
  moreover from c have "todo_completed updated = todo_completed example_todo" by simp
  moreover from d have "todo_dueDate updated = todo_dueDate example_todo" by simp
  ultimately show ?thesis using h u by blast
qed

section \<open>C3: creating a todo under an unknown project\<close>

text \<open>  Claim C3. A create-todo call whose project identifier is not a key of the project store
  answers 404 Not Found whatever the body is (null, a missing or empty title, a valid
  title): the parent check comes before the title check. The state is returned as it
  was, so the todo store and the todo counter are unchanged. The same holds for the whole
  server on an authorised \<^verbatim>\<open>POST /projects/{id}/todos\<close>.\<close>

theorem createTodo_unknown_project:
  assumes "\<not> Map_has (projects s) projectId"
  shows "createTodo clock (projectId # rest) body s = (Inr notFound, s)
    \<and> res_status notFound = 404
    \<and> todos (snd (createTodo clock (projectId # rest) body s)) = todos s
    \<and> todoCounter (snd (createTodo clock (projectId # rest) body s)) = todoCounter s
    \<and> (req_method req = ''POST'' \<longrightarrow> req_pathname req = ''/projects/'' @ projectId @ ''/todos''
         \<longrightarrow> projectId \<noteq> [] \<longrightarrow> CHR ''/'' \<notin> set projectId \<longrightarrow> authorised req s
         \<longrightarrow> handler sign req s = (Inr notFound, s))"
  using assms by (simp add: createTodo_unknown notFound_def handler_create_todo)

text \<open>The example of the claim, with no body, an empty title and a valid title.\<close>

theorem createTodo_unknown_project_witness:
  "\<not> Map_has (projects example_state) ''does-not-exist''
   \<and> createTodo 0 [''does-not-exist''] JNull example_state = (Inr notFound, example_state)
   \<and> createTodo 0 [''does-not-exist''] (JObj [(''title'', JStr [])]) example_state
       = (Inr notFound, example_state)
   \<and> createTodo 0 [''does-not-exist''] (JObj [(''title'', JStr ''Milk'')]) example_state
       = (Inr notFound, example_state)
   \<and> res_status notFound = 404
   \<and> handler example_signer
        (example_request\<lparr>req_method := ''POST'',
           req_pathname := ''/projects/does-not-exist/todos'',
           req_json := Some (JObj [(''title'', JStr ''Milk'')])\<rparr>) example_state
       = (Inr notFound, example_state)"
proof -
  have h: "\<not> Map_has (projects example_state) ''does-not-exist''"
    by (simp add: example_defs Map_has_def)
  have a: "authorised
      (example_request\<lparr>req_method := ''POST'', req_pathname := ''/projects/does-not-exist/todos'',
         req_json := Some (JObj [(''title'', JStr ''Milk'')])\<rparr>) example_state"
    by (simp add: authorised_def example_request_def example_authorised json_def)
  show ?thesis
    using h a
      createTodo_unknown_project [OF h, of 0 "[]" JNull example_request example_signer]
      createTodo_unknown_project [OF h, of 0 "[]" "JObj [(''title'', JStr [])]"
        example_request example_signer]
      createTodo_unknown_project [OF h, of 0 "[]" "JObj [(''title'', JStr ''Milk'')]"
        "example_request\<lparr>req_method := ''POST'',
           req_pathname := ''/projects/does-not-exist/todos'',
           req_json := Some (JObj [(''title'', JStr ''Milk'')])\<rparr>" example_signer]
    by simp
qed

section \<open>C4: project identifiers over a run of the server\<close>

text \<open>Every request either creates no project and leaves the project counter, or creates
  the project numbered by the counter and increments it.\<close>

lemma created_simps:
  "created_project_id (Inl e) = None"
  "created_project_id (Inr notFound) = None"
  "created_project_id (Inr no_content) = None"
  "created_project_id (Inr (plain msg st)) = None"
  "created_project_id (Inr (json (PTodo t) st)) = None"
  "created_project_id (Inr (json (PProjects ps) st)) = None"
  "created_project_id (Inr (json (PTodos ts) st)) = None"
  "created_project_id (Inr (json (PError msg) st)) = None"
  "created_project_id (Inr (json (PMessage msg) st)) = None"
  "created_project_id (Inr (json (PToken tok ex) st)) = None"
  "created_project_id (Inr (json PEmptyObject st)) = None"
  "created_project_id (Inr (json (PProject p) 200)) = None"
  "created_project_id (Inr (json (PProject p) 201)) = Some (project_id p)"
  by (simp_all add: created_project_id_def notFound_def no_content_def plain_def json_def)

lemma createProject_step: "step_ok (projectCounter s) (createProject clock body s)"
  by (simp add: step_ok_def createProject_def created_simps Let_def split: sum.splits)

lemma updateProject_step: "step_ok (projectCounter s) (updateProject params body s)"
  by (simp add: step_ok_def updateProject_def created_simps Let_def
      split: sum.splits list.splits option.splits)

lemma createTodo_step: "step_ok (projectCounter s) (createTodo clock params body s)"
  by (simp add: step_ok_def createTodo_def created_simps Let_def split: sum.splits list.splits)

lemma login_step: "step_ok (projectCounter s) (login sign h clock s)"
  by (simp add: step_ok_def login_def created_simps Let_def
      split: sum.splits list.splits option.splits)

lemma deleteProject_step:
  "step_ok (projectCounter s) (Inr (fst (deleteProject params s)), snd (deleteProject params s))"
  by (simp add: step_ok_def deleteProject_def created_simps split: list.splits)

lemma deleteTodo_step:
  "step_ok (projectCounter s) (Inr (fst (deleteTodo params s)), snd (deleteTodo params s))"
  by (simp add: step_ok_def deleteTodo_def created_simps split: list.splits)

lemma updateTodo_step:
  "step_ok (projectCounter s) (Inr (fst (updateTodo params body s)), snd (updateTodo params body s))"
  by (simp add: step_ok_def updateTodo_def created_simps split: list.splits option.splits)

lemma reader_step:
  "step_ok (projectCounter s) (Inr (listProjects s), s)"
  "step_ok (projectCounter s) (Inr (getProject params s), s)"
  "step_ok (projectCounter s) (Inr (listTodos params s), s)"
  "step_ok (projectCounter s) (Inr (listAllTodos s), s)"
  "step_ok (projectCounter s) (Inr (getTodo params s), s)"
  "step_ok (projectCounter s) (Inr (json PEmptyObject 200), s)"
  by (simp_all add: step_ok_def listProjects_def getProject_def listTodos_def listAllTodos_def
      getTodo_def created_simps split: list.splits option.splits)

lemma invoke_step: "step_ok (projectCounter s) (invoke h sign req body params s)"
  by (cases h)
     (simp_all add: createProject_step updateProject_step createTodo_step login_step
        deleteProject_step deleteTodo_step updateTodo_step reader_step)

lemma authHandler_not_created: "created_project_id (Inr (authHandler h now s)) = None"
  by (simp add: authHandler_def created_simps split: option.splits)

lemma handler_step: "step_ok (projectCounter s) (handler sign req s)"
  using handler_cases [of sign req s]
  by (auto simp: invoke_step) (simp_all add: step_ok_def created_simps authHandler_not_created)

text \<open>Hence the identifiers created over a run are those of consecutive counter values,
  and a run creates no more projects than it has requests.\<close>

lemma ids_from_0: "ids_from c 0 = []"
  by (simp add: ids_from_def)

lemma length_ids_from: "length (ids_from c n) = n"
  by (simp add: ids_from_def)

lemma ids_from_Suc: "ids_from c (Suc n) = Number_toString c # ids_from (js_increment c) n"
proof -
  have "[0..<Suc n] = 0 # map Suc [0..<n]"
    by (simp add: upt_conv_Cons map_Suc_upt del: upt_Suc)
  then show ?thesis
    by (simp add: ids_from_def funpow_swap1 comp_def del: upt_Suc)
qed

lemma created_project_ids_Cons:
  "created_project_ids (out # outs) =
     (case created_project_id out of
        None \<Rightarrow> created_project_ids outs
      | Some i \<Rightarrow> i # created_project_ids outs)"
  by (simp add: created_project_ids_def map_filter_simps split: option.splits)

lemma run_ids:
  "created_project_ids (fst (run sign reqs s))
     = ids_from (projectCounter s) (length (created_project_ids (fst (run sign reqs s))))
   \<and> projectCounter (snd (run sign reqs s))
     = (js_increment ^^ length (created_project_ids (fst (run sign reqs s)))) (projectCounter s)"
proof (induction reqs arbitrary: s)
  case Nil
  then show ?case by (simp add: created_project_ids_def ids_from_0)
next
  case (Cons r rs)
  define s1 where "s1 = snd (handler sign r s)"
  define n where "n = length (created_project_ids (fst (run sign rs s1)))"
  have ih: "created_project_ids (fst (run sign rs s1)) = ids_from (projectCounter s1) n"
    "projectCounter (snd (run sign rs s1)) = (js_increment ^^ n) (projectCounter s1)"
    using Cons.IH [of s1] unfolding n_def by simp_all
  have "step_ok (projectCounter s) (handler sign r s)"
    by (rule handler_step)
  then consider
    (same) "created_project_id (fst (handler sign r s)) = None"
      "projectCounter s1 = projectCounter s"
    | (created) "created_project_id (fst (handler sign r s)) = Some (Number_toString (projectCounter s))"
      "projectCounter s1 = js_increment (projectCounter s)"
    unfolding step_ok_def s1_def by auto
  then show ?case
  proof cases
    case same
    then show ?thesis
      using ih by (simp add: created_project_ids_Cons s1_def [symmetric] length_ids_from)
  next
    case created
    have "created_project_ids (fst (run sign (r # rs) s))
        = Number_toString (projectCounter s) # ids_from (js_increment (projectCounter s)) n"
      using created ih(1) by (simp add: created_project_ids_Cons s1_def [symmetric])
    then have l: "created_project_ids (fst (run sign (r # rs) s))
        = ids_from (projectCounter s) (Suc n)"
      by (simp add: ids_from_Suc)
    then have len: "length (created_project_ids (fst (run sign (r # rs) s))) = Suc n"
      by (simp add: length_ids_from)
    have "projectCounter (snd (run sign (r # rs) s)) = (js_increment ^^ Suc n) (projectCounter s)"
      using ih(2) created(2) by (simp add: s1_def [symmetric] funpow_swap1)
    with l len show ?thesis by simp
  qed
qed

lemma created_le_requests:
  "length (created_project_ids (fst (run sign reqs s))) \<le> length reqs"
proof (induction reqs arbitrary: s)
  case Nil
  show ?case by (simp add: created_project_ids_def map_filter_simps)
next
  case (Cons r rs)
  from Cons [of "snd (handler sign r s)"] show ?case
    by (simp add: created_project_ids_Cons split: option.splits)
qed

lemma parse_ids_from:
  assumes "n \<le> 2 ^ 53"
  shows "map parse_decimal (ids_from 1 n) = [1..<Suc n]"
proof -
  have "map parse_decimal (ids_from 1 n) = map (\<lambda>k. min (1 + k) (2 ^ 53)) [0..<n]"
    by (simp add: ids_from_def parse_Number_toString js_increment_iterate comp_def)
  also have "\<dots> = map Suc [0..<n]"
    using assms by (intro map_cong) (auto simp: min_def)
  also have "\<dots> = [1..<Suc n]"
    by (simp add: map_Suc_upt del: upt_Suc)
  finally show ?thesis .
qed

lemma deleteProject_not_created: "created_project_id (Inr (fst (deleteProject params s))) = None"
  by (simp add: deleteProject_def created_simps split: list.splits)

lemma run_replicate_create:
  assumes "Map_get (validJwts s) ''token'' = Some 3600000"
  shows "length (created_project_ids (fst (run sign (replicate n create_request) s))) = n"
  using assms
proof (induction n arbitrary: s)
  case 0
  then show ?case by (simp add: created_project_ids_def)
next
  case (Suc n)
  note h = handler_create_request [OF Suc.prems, of sign]
  have "Map_get (validJwts (snd (handler sign create_request s))) ''token'' = Some 3600000"
    unfolding h using Suc.prems by simp
  from Suc.IH [OF this] show ?case
    by (simp add: created_project_ids_Cons) (simp add: h created_simps)
qed

lemma example_run_ids:
  "created_project_ids (fst (run example_signer
       [login_request, create_request, delete_request, create_request] initial))
     = [''1'', ''2'']"
proof -
  define s1 where "s1 = initial\<lparr>validJwts := Map_set (validJwts initial) ''token'' 3600000\<rparr>"
  define s2 where "s2 = snd (handler example_signer create_request s1)"
  define s3 where "s3 = snd (deleteProject [''1''] s2)"
  have t1: "Map_get (validJwts s1) ''token'' = Some 3600000"
    by (simp add: s1_def Map_get_set)
  have c1: "projectCounter s1 = 1"
    by (simp add: s1_def initial_def)
  note h2 = handler_create_request [OF t1, of example_signer]
  have t2: "Map_get (validJwts s2) ''token'' = Some 3600000"
    unfolding s2_def h2 using t1 by simp
  have c2: "projectCounter s2 = 2"
    unfolding s2_def h2 by (simp add: c1 js_increment_def)
  have t3: "Map_get (validJwts s3) ''token'' = Some 3600000"
    unfolding s3_def using t2 by (simp add: deleteProject_keeps_tokens)
  have c3: "projectCounter s3 = 2"
    unfolding s3_def using c2 by (simp add: deleteProject_keeps_tokens)
  have o1: "created_project_id (fst (handler example_signer login_request initial)) = None"
    by (simp add: handler_login_request created_simps)
  have o2: "created_project_id (fst (handler example_signer create_request s1)) = Some ''1''"
    unfolding h2 by (simp add: created_simps c1 Number_toString_1)
  have o3: "created_project_id (fst (handler example_signer delete_request s2)) = None"
    by (simp add: handler_delete_request [OF t2] deleteProject_not_created)
  have o4: "created_project_id (fst (handler example_signer create_request s3)) = Some ''2''"
    unfolding handler_create_request [OF t3]
    by (simp add: created_simps c3 Number_toString.simps digit_char_def)
  have e1: "snd (handler example_signer login_request initial) = s1"
    by (simp add: handler_login_request s1_def)
  have e3: "snd (handler example_signer delete_request s2) = s3"
    by (simp add: handler_delete_request [OF t2] s3_def)
  show ?thesis
    by (simp add: created_project_ids_Cons e1 o1 s2_def [symmetric] o2 e3 o3 o4)
       (simp add: created_project_ids_def)
qed

text \<open>  Claim C4. Over any sequence of requests handled by a server started fresh, the
  identifiers returned by the successful project creations are, read as integers, exactly
  1, 2, 3 and so on in the order of creation: each is strictly greater than every earlier
  one, hence distinct from all of them, and no identifier is given again after its project
  was deleted, whatever the requests in between are. The project counter is one more than
  the number of projects created so far (and \<open>2^53\<close> once that many are created); it is
  changed by nothing but a creation. The
  sequence is one that a server can be sent: it creates at most \<open>2^53\<close> projects, as every
  sequence of at most \<open>2^53 = 9007199254740992\<close> requests does
  (\<open>created_le_requests\<close>); up to there the counter, a JavaScript number, is exact.\<close>

theorem project_ids_strictly_increase:
  assumes "length (created_project_ids (fst (run sign reqs initial))) \<le> 2 ^ 53"
  shows "map parse_decimal (created_project_ids (fst (run sign reqs initial)))
        = [1..<Suc (length (created_project_ids (fst (run sign reqs initial))))]
    \<and> sorted_wrt (<) (map parse_decimal (created_project_ids (fst (run sign reqs initial))))
    \<and> distinct (created_project_ids (fst (run sign reqs initial)))
    \<and> projectCounter (snd (run sign reqs initial))
        = min (Suc (length (created_project_ids (fst (run sign reqs initial))))) (2 ^ 53)"
proof -
  define ids where "ids = created_project_ids (fst (run sign reqs initial))"
  have c: "projectCounter initial = 1"
    by (simp add: initial_def)
  from run_ids [of sign reqs initial]
  have ids: "ids = ids_from 1 (length ids)"
    and fin: "projectCounter (snd (run sign reqs initial)) = (js_increment ^^ length ids) 1"
    unfolding ids_def c by simp_all
  have p: "map parse_decimal ids = [1..<Suc (length ids)]"
    using parse_ids_from [of "length ids"] assms ids unfolding ids_def [symmetric] by simp
  then have "sorted_wrt (<) (map parse_decimal ids)"
    by (simp del: upt_Suc)
  moreover have "distinct (map parse_decimal ids)"
    unfolding p by (simp del: upt_Suc)
  then have "distinct ids"
    by (simp add: distinct_map)
  moreover have "projectCounter (snd (run sign reqs initial)) = min (Suc (length ids)) (2 ^ 53)"
    unfolding fin by (simp add: js_increment_iterate)
  ultimately show ?thesis
    using p unfolding ids_def by blast
qed

text \<open>A login, a creation, the deletion of the created project and another creation: the
  second project gets the identifier 2, not the freed 1.\<close>

theorem project_ids_strictly_increase_witness:
  "created_project_ids (fst (run example_signer
       [login_request, create_request, delete_request, create_request] initial)) = [''1'', ''2'']
   \<and> length (created_project_ids (fst (run example_signer
       [login_request, create_request, delete_request, create_request] initial))) \<le> 2 ^ 53
   \<and> map parse_decimal (created_project_ids (fst (run example_signer
       [login_request, create_request, delete_request, create_request] initial))) = [1, 2]
   \<and> distinct (created_project_ids (fst (run example_signer
       [login_request, create_request, delete_request, create_request] initial)))
   \<and> projectCounter (snd (run example_signer
       [login_request, create_request, delete_request, create_request] initial)) = 3"
proof -
  have h: "length (created_project_ids (fst (run example_signer
       [login_request, create_request, delete_request, create_request] initial))) \<le> 2 ^ 53"
    unfolding example_run_ids by simp
  from project_ids_strictly_increase [OF h] show ?thesis
    unfolding example_run_ids by (simp add: upt_rec)
qed

text \<open>The bound of the theorem is where the arithmetic on JavaScript numbers stops being
  exact, and it cannot be dropped from the statement about the model: there, a login
  followed by \<open>2^53 + 1\<close> creations would get the same identifier twice. Such a
  sequence has more than \<open>2^53\<close> requests and as many stored projects, and is not one
  that a server is sent.\<close>

theorem project_id_repeats_after_2_53:
  "\<not> distinct (created_project_ids (fst (run example_signer
       (login_request # replicate 9007199254740993 create_request) initial)))
   \<and> created_project_ids (fst (run example_signer
       (login_request # replicate 9007199254740993 create_request) initial))
       ! 9007199254740991 = ''9007199254740992''
   \<and> created_project_ids (fst (run example_signer
       (login_request # replicate 9007199254740993 create_request) initial))
       ! 9007199254740992 = ''9007199254740992''"
proof -
  define s1 where "s1 = initial\<lparr>validJwts := Map_set (validJwts initial) ''token'' 3600000\<rparr>"
  define ids where "ids = created_project_ids (fst (run example_signer
       (replicate 9007199254740993 create_request) s1))"
  have t1: "Map_get (validJwts s1) ''token'' = Some 3600000"
    by (simp add: s1_def Map_get_set)
  have c1: "projectCounter s1 = 1"
    by (simp add: s1_def initial_def)
  have all: "created_project_ids (fst (run example_signer
       (login_request # replicate 9007199254740993 create_request) initial)) = ids"
    by (simp add: created_project_ids_Cons handler_login_request created_simps
        s1_def [symmetric] ids_def)
  have len: "length ids = 9007199254740993"
    unfolding ids_def by (rule run_replicate_create [OF t1])
  from run_ids [of example_signer "replicate 9007199254740993 create_request" s1]
  have ids: "ids = ids_from 1 9007199254740993"
    unfolding ids_def [symmetric] len c1 by simp
  have a: "ids ! 9007199254740991 = ''9007199254740992''"
    unfolding ids ids_from_def
    by (simp add: js_increment_iterate Number_toString.simps digit_char_def)
  have b: "ids ! 9007199254740992 = ''9007199254740992''"
    unfolding ids ids_from_def
    by (simp add: js_increment_iterate Number_toString.simps digit_char_def)
  have "\<not> distinct ids"
  proof
    assume "distinct ids"
    from nth_eq_iff_index_eq [OF this, of 9007199254740991 9007199254740992] len a b
    show False by simp
  qed
  with a b show ?thesis
    unfolding all by simp
qed

section \<open>C5: bodies that are not parseable JSON\<close>

lemma new_todo_null: "new_todo i p t JNull c = new_todo i p t (JObj []) c"
  by (simp add: new_todo_def)

lemma updated_todo_null: "updated_todo todo JNull = updated_todo todo (JObj [])"
  by (simp add: updated_todo_def)

lemma createProject_null_body: "createProject clock JNull s = createProject clock (JObj []) s"
  unfolding createProject_def get_prop_null ..

lemma updateProject_null_body: "updateProject params JNull s = updateProject params (JObj []) s"
  unfolding updateProject_def get_prop_null ..

lemma createTodo_null_body: "createTodo clock params JNull s = createTodo clock params (JObj []) s"
  unfolding createTodo_def get_prop_null new_todo_null ..

lemma updateTodo_null_body: "updateTodo params JNull s = updateTodo params (JObj []) s"
  unfolding updateTodo_def updated_todo_null ..

lemma invoke_null_body:
  "invoke h sign req JNull params s = invoke h sign req (JObj []) params s"
  by (cases h)
     (simp_all add: createProject_null_body updateProject_null_body createTodo_null_body
        updateTodo_null_body)

lemma invoke_req_json:
  "invoke h sign (req\<lparr>req_json := j\<rparr>) body params s = invoke h sign req body params s"
  by (cases h) simp_all

lemma handler_unparseable:
  "handler sign (req\<lparr>req_json := None\<rparr>) s = handler sign (req\<lparr>req_json := Some (JObj [])\<rparr>) s"
  by (cases "matchRoute (req_pathname req) (req_method req)")
     (simp_all add: handler_def parseBody_def invoke_null_body invoke_req_json)

lemma createProject_null:
  "createProject clock JNull s = (Inr (plain ''Missing project name'' 400), s)"
  by (simp add: createProject_def js_trim_empty)

lemma updateProject_null:
  "Map_get (projects s) projectId = Some project \<Longrightarrow>
     updateProject (projectId # rest) JNull s = (Inr (plain ''Missing project name'' 400), s)"
  by (simp add: updateProject_def js_trim_empty)

lemma updateTodo_null:
  assumes "Map_get (todos s) todoId = Some todo"
  shows "updateTodo (todoId # rest) JNull s = (json (PTodo todo) 200, s)"
proof -
  have "updated_todo todo JNull = todo"
    by (simp add: updated_todo_def if_string_def if_boolean_def)
  then show ?thesis
    by (simp add: updateTodo_found [OF assms] Map_set_same [OF assms])
qed

text \<open>  Claim C5, as the code has it. A request whose body is not parseable JSON is answered
  exactly as the same request with the empty object as body: the body becomes null, and
  no handler tells null from an object without fields. Creating a project then fails its
  name check with 400; creating a todo fails its title check with 400 when the parent
  project exists (and with 404 when it does not); updating an existing todo answers 200
  with the todo as it was and leaves the whole state unchanged; updating an existing
  project fails its name check with 400 and leaves the state unchanged. Each time the
  state is returned as it was.\<close>

theorem unparseable_body_as_no_fields:
  "handler sign (req\<lparr>req_json := None\<rparr>) s = handler sign (req\<lparr>req_json := Some (JObj [])\<rparr>) s
   \<and> parseBody None = JNull
   \<and> createProject clock (parseBody None) s = (Inr (plain ''Missing project name'' 400), s)
   \<and> (Map_has (projects s) projectId \<longrightarrow>
        createTodo clock (projectId # rest) (parseBody None) s
          = (Inr (plain ''Missing todo title'' 400), s))
   \<and> (\<not> Map_has (projects s) projectId \<longrightarrow>
        createTodo clock (projectId # rest) (parseBody None) s = (Inr notFound, s))
   \<and> (\<forall>todo. Map_get (todos s) todoId = Some todo \<longrightarrow>
        updateTodo (todoId # rest) (parseBody None) s = (json (PTodo todo) 200, s))
   \<and> (\<forall>project. Map_get (projects s) projectId = Some project \<longrightarrow>
        updateProject (projectId # rest) (parseBody None) s
          = (Inr (plain ''Missing project name'' 400), s))"
proof -
  have p: "parseBody None = JNull"
    by (simp add: parseBody_def)
  have t: "js_String (nullish (get_prop JNull ''title'') (JStr [])) = Inr []"
    by simp
  show ?thesis
    unfolding p
    using createTodo_missing_title [OF _ t js_trim_empty, of s projectId clock rest]
    by (simp add: handler_unparseable createProject_null createTodo_unknown updateTodo_null
        updateProject_null)
qed

text \<open>The four operations on the example state, with an unparseable body.\<close>

theorem unparseable_body_as_no_fields_witness:
  "Map_has (projects example_state) ''1''
   \<and> Map_get (todos example_state) ''1'' = Some example_todo
   \<and> Map_get (projects example_state) ''1'' = Some example_project
   \<and> createProject 0 (parseBody None) example_state
       = (Inr (plain ''Missing project name'' 400), example_state)
   \<and> createTodo 0 [''1''] (parseBody None) example_state
       = (Inr (plain ''Missing todo title'' 400), example_state)
   \<and> updateTodo [''1''] (parseBody None) example_state
       = (json (PTodo example_todo) 200, example_state)
   \<and> updateProject [''1''] (parseBody None) example_state
       = (Inr (plain ''Missing project name'' 400), example_state)"
proof -
  have a: "Map_has (projects example_state) ''1''"
    by (simp add: example_defs Map_has_def)
  have b: "Map_get (todos example_state) ''1'' = Some example_todo"
    by (simp add: example_state_def Map_get_def)
  have c: "Map_get (projects example_state) ''1'' = Some example_project"
    by (simp add: example_state_def Map_get_def)
  from unparseable_body_as_no_fields [of example_signer example_request example_state 0 "''1''"
      "[]" "''1''"] a b c
  show ?thesis by (simp add: parseBody_def)
qed

text \<open>Claim C5 as stated fails for the update of a project: an authorised
  \<^verbatim>\<open>PUT /projects/1\<close> with an unparseable body is answered 400, not success.\<close>

theorem updateProject_unparseable_body_rejected:
  "fst (handler example_signer
      \<lparr>req_method = ''PUT'', req_pathname = ''/projects/1'',
       req_authorization = Some ''Bearer token'', req_json = None,
       clock_gate = 0, clock_handler = 0\<rparr> example_state)
   = Inr (plain ''Missing project name'' 400)"
proof -
  have m: "matchRoute ''/projects/1'' ''PUT''
      = Some \<lparr>match_handler = UpdateProject, match_name = None, match_params = [''1'']\<rparr>"
    by (simp add: route_eval)
  have c: "Map_get (projects example_state) ''1'' = Some example_project"
    by (simp add: example_state_def Map_get_def)
  show ?thesis
    by (simp add: handler_def m example_authorised json_def parseBody_def
        updateProject_null [OF c])
qed

section \<open>C6: deleting a project that has todos\<close>

text \<open>  Claim C6. Deleting an existing project removes the project record only: the project
  can no longer be read, every other project is as before, and the todo store is
  untouched. A todo whose owning project is the deleted one is still in the store, reading
  it answers 200 with the same todo, and it still names the deleted project. The same
  holds for the whole server: an authorised \<^verbatim>\<open>DELETE /projects/{id}\<close> answers 204 and
  only removes the project, and an authorised \<^verbatim>\<open>GET /todos/{id}\<close> afterwards answers 200
  with the todo.\<close>

theorem deleteProject_keeps_todos:
  assumes "Map_has (projects s) projectId"
    and "Map_get (todos s) todoId = Some todo"
    and "todo_projectId todo = projectId"
  shows "deleteProject (projectId # rest) s
        = (no_content, s\<lparr>projects := Map_delete (projects s) projectId\<rparr>)
    \<and> res_status no_content = 204
    \<and> \<not> Map_has (projects (snd (deleteProject (projectId # rest) s))) projectId
    \<and> getProject (projectId # rest') (snd (deleteProject (projectId # rest) s)) = notFound
    \<and> (\<forall>k. k \<noteq> projectId \<longrightarrow>
          Map_get (projects (snd (deleteProject (projectId # rest) s))) k = Map_get (projects s) k)
    \<and> todos (snd (deleteProject (projectId # rest) s)) = todos s
    \<and> Map_get (todos (snd (deleteProject (projectId # rest) s))) todoId = Some todo
    \<and> getTodo (todoId # rest') (snd (deleteProject (projectId # rest) s))
        = json (PTodo todo) 200
    \<and> todo_projectId todo = projectId
    \<and> listAllTodos (snd (deleteProject (projectId # rest) s)) = listAllTodos s
    \<and> (req_method del = ''DELETE'' \<longrightarrow> req_pathname del = ''/projects/'' @ projectId
         \<longrightarrow> projectId \<noteq> [] \<longrightarrow> CHR ''/'' \<notin> set projectId \<longrightarrow> authorised del s
         \<longrightarrow> handler sign del s
               = (Inr no_content, s\<lparr>projects := Map_delete (projects s) projectId\<rparr>))
    \<and> (req_method get = ''GET'' \<longrightarrow> req_pathname get = ''/todos/'' @ todoId
         \<longrightarrow> todoId \<noteq> [] \<longrightarrow> CHR ''/'' \<notin> set todoId
         \<longrightarrow> authorised get (s\<lparr>projects := Map_delete (projects s) projectId\<rparr>)
         \<longrightarrow> handler sign get (s\<lparr>projects := Map_delete (projects s) projectId\<rparr>)
               = (Inr (json (PTodo todo) 200),
                  s\<lparr>projects := Map_delete (projects s) projectId\<rparr>))"
  using assms
  by (simp add: deleteProject_found Map_has_get Map_get_delete getProject_def getTodo_def
      listAllTodos_def no_content_def handler_delete_project handler_get_todo)

text \<open>The example state has one project with one todo.\<close>

theorem deleteProject_keeps_todos_witness:
  "Map_has (projects example_state) ''1''
   \<and> Map_get (todos example_state) ''1'' = Some example_todo
   \<and> todo_projectId example_todo = ''1''
   \<and> fst (deleteProject [''1''] example_state) = no_content
   \<and> projects (snd (deleteProject [''1''] example_state)) = []
   \<and> getTodo [''1''] (snd (deleteProject [''1''] example_state)) = json (PTodo example_todo) 200
   \<and> handler example_signer delete_request example_state
       = (Inr no_content, example_state\<lparr>projects := []\<rparr>)
   \<and> handler example_signer (example_request\<lparr>req_pathname := ''/todos/1''\<rparr>)
        (example_state\<lparr>projects := []\<rparr>)
       = (Inr (json (PTodo example_todo) 200), example_state\<lparr>projects := []\<rparr>)"
proof -
  have p: "Map_has (projects example_state) ''1''"
    by (simp add: example_defs Map_has_def)
  have t: "Map_get (todos example_state) ''1'' = Some example_todo"
    by (simp add: example_state_def Map_get_def)
  have o: "todo_projectId example_todo = ''1''"
    by (simp add: example_todo_def)
  have d: "Map_delete (projects example_state) ''1'' = []"
    by (simp add: example_state_def Map_delete_def)
  have a1: "authorised delete_request example_state"
    by (simp add: authorised_def delete_request_def authHandler_def example_state_def
        Map_get_def json_def)
  have a2: "authorised (example_request\<lparr>req_pathname := ''/todos/1''\<rparr>)
      (example_state\<lparr>projects := []\<rparr>)"
    by (simp add: authorised_def example_request_def authHandler_def example_state_def
        Map_get_def json_def)
  note th = deleteProject_keeps_todos [OF p t o, of "[]" "[]" delete_request example_signer
      "example_request\<lparr>req_pathname := ''/todos/1''\<rparr>"]
  from th have 1: "deleteProject [''1''] example_state
        = (no_content, example_state\<lparr>projects := Map_delete (projects example_state) ''1''\<rparr>)"
    and 2: "getTodo [''1''] (snd (deleteProject [''1''] example_state))
        = json (PTodo example_todo) 200"
    by blast+
  from th a1 have 3: "handler example_signer delete_request example_state
       = (Inr no_content, example_state\<lparr>projects := []\<rparr>)"
    unfolding d by (simp add: delete_request_def)
  from th a2 have 4: "handler example_signer (example_request\<lparr>req_pathname := ''/todos/1''\<rparr>)
        (example_state\<lparr>projects := []\<rparr>)
       = (Inr (json (PTodo example_todo) 200), example_state\<lparr>projects := []\<rparr>)"
    unfolding d by (simp add: example_request_def)
  from 1 d have "fst (deleteProject [''1''] example_state) = no_content"
    and "projects (snd (deleteProject [''1''] example_state)) = []"
    by simp_all
  with p t o 2 3 4 show ?thesis by blast
qed

section \<open>C7: the pattern of the root route\<close>

text \<open>  Claim C7 at the input where the code departs from it. The pattern of the first route,
  \<^verbatim>\<open>/\/$/\<close>, has no \<^verbatim>\<open>^\<close>: it matches every path that ends with a slash, so a
  \<^verbatim>\<open>GET\<close> of \<^verbatim>\<open>/projects/\<close> or \<^verbatim>\<open>/todos/1/\<close> is routed to the root handler, and an
  authorised \<^verbatim>\<open>GET /projects/\<close> is answered 200 with the empty object. The other
  twelve patterns are anchored at both ends (\<open>str_match_segment\<close>,
  \<open>str_match_segment_suffix\<close>, \<open>match_here_literal\<close>), and the first route in
  declaration order that matches wins (\<open>matchRoute_first_match\<close>).\<close>

theorem matchRoute_root_not_anchored:
  "matchRoute ''/projects/'' ''GET''
     = Some \<lparr>match_handler = Root, match_name = None, match_params = []\<rparr>
   \<and> matchRoute ''/todos/1/'' ''GET''
     = Some \<lparr>match_handler = Root, match_name = None, match_params = []\<rparr>
   \<and> handler example_signer (example_request\<lparr>req_pathname := ''/projects/''\<rparr>) example_state
     = (Inr (json PEmptyObject 200), example_state)"
proof -
  have m: "matchRoute ''/projects/'' ''GET''
     = Some \<lparr>match_handler = Root, match_name = None, match_params = []\<rparr>"
    by (simp add: route_eval)
  have "matchRoute ''/todos/1/'' ''GET''
     = Some \<lparr>match_handler = Root, match_name = None, match_params = []\<rparr>"
    by (simp add: route_eval)
  moreover have "handler example_signer (example_request\<lparr>req_pathname := ''/projects/''\<rparr>)
      example_state = (Inr (json PEmptyObject 200), example_state)"
    by (simp add: handler_def example_request_def m example_authorised json_def)
  ultimately show ?thesis using m by simp
qed

section \<open>C8: creating a project and reading it back\<close>

text \<open>  Claim C8. Whenever a project creation succeeds (answers 201), reading the project by
  the identifier of the returned record succeeds (200) and yields that same record: its
  id is the generated one (the counter in decimal), its name is the trimmed text of the
  body's \<^verbatim>\<open>name\<close> and is not empty, and its createdAt is the ISO-8601 rendering of the
  creation time, which parses back to that time. The clock is a time value: at most
  8640000000000000 milliseconds after the epoch. The same holds for the whole server: the
  creation is what an authorised \<^verbatim>\<open>POST /projects\<close> does, and an authorised
  \<^verbatim>\<open>GET /projects/{id}\<close> with the returned id answers 200 with the record.\<close>

theorem createProject_then_getProject:
  assumes "createProject clock body s = (Inr r, s')"
    and "res_status r = 201"
    and "clock \<le> 8640000000000000"
  shows "\<exists>project.
      r = json (PProject project) 201
    \<and> getProject (project_id project # rest) s' = json (PProject project) 200
    \<and> Map_get (projects s') (project_id project) = Some project
    \<and> project_id project = Number_toString (projectCounter s)
    \<and> project_name project \<noteq> []
    \<and> (\<exists>str. js_String (nullish (get_prop body ''name'') (JStr [])) = Inr str
          \<and> project_name project = js_trim str)
    \<and> (\<forall>n. get_prop body ''name'' = Some (JStr n) \<longrightarrow> project_name project = js_trim n)
    \<and> project_createdAt project = toISOString clock
    \<and> Date_parse (project_createdAt project) = Some clock
    \<and> (req_method post = ''POST'' \<longrightarrow> req_pathname post = ''/projects'' \<longrightarrow> authorised post s
         \<longrightarrow> clock_handler post = clock \<longrightarrow> parseBody (req_json post) = body
         \<longrightarrow> handler sign post s = (Inr r, s'))
    \<and> (req_method get = ''GET'' \<longrightarrow> req_pathname get = ''/projects/'' @ project_id project
         \<longrightarrow> authorised get s'
         \<longrightarrow> handler sign get s' = (Inr (json (PProject project) 200), s'))"
proof -
  from createProject_created [OF assms(1,2)] obtain str where
    str: "js_String (nullish (get_prop body ''name'') (JStr [])) = Inr str"
    and ne: "js_trim str \<noteq> []"
    and r: "r = json (PProject \<lparr>project_id = Number_toString (projectCounter s),
              project_name = js_trim str, project_createdAt = toISOString clock\<rparr>) 201"
    and s': "s' = s\<lparr>projects := Map_set (projects s) (Number_toString (projectCounter s))
              \<lparr>project_id = Number_toString (projectCounter s),
               project_name = js_trim str, project_createdAt = toISOString clock\<rparr>,
            projectCounter := js_increment (projectCounter s)\<rparr>"
    by blast
  define project where "project = \<lparr>project_id = Number_toString (projectCounter s),
              project_name = js_trim str, project_createdAt = toISOString clock\<rparr>"
  have i: "project_id project = Number_toString (projectCounter s)"
    by (simp add: project_def)
  have g: "Map_get (projects s') (project_id project) = Some project"
    unfolding s' project_def by (simp add: Map_get_set)
  have gp: "getProject (project_id project # rest) s' = json (PProject project) 200" for rest
    by (simp add: getProject_def g)
  have nm: "\<forall>n. get_prop body ''name'' = Some (JStr n) \<longrightarrow> project_name project = js_trim n"
    using str by (auto simp: project_def)
  have dp: "Date_parse (project_createdAt project) = Some clock"
    by (simp add: project_def Date_parse_toISOString [OF assms(3)])
  have po: "req_method post = ''POST'' \<longrightarrow> req_pathname post = ''/projects'' \<longrightarrow> authorised post s
         \<longrightarrow> clock_handler post = clock \<longrightarrow> parseBody (req_json post) = body
         \<longrightarrow> handler sign post s = (Inr r, s')"
    using handler_create_project [of post s sign] assms(1) by auto
  have ge: "req_method get = ''GET'' \<longrightarrow> req_pathname get = ''/projects/'' @ project_id project
         \<longrightarrow> authorised get s'
         \<longrightarrow> handler sign get s' = (Inr (json (PProject project) 200), s')"
    using handler_get_project [of get "project_id project" s' sign]
      Number_toString_segment [of "projectCounter s"] gp [of "[]"]
    unfolding i by auto
  have "r = json (PProject project) 201"
    unfolding r project_def ..
  moreover have "project_name project \<noteq> []"
    using ne by (simp add: project_def)
  moreover have "\<exists>str. js_String (nullish (get_prop body ''name'') (JStr [])) = Inr str
          \<and> project_name project = js_trim str"
    using str by (auto simp: project_def)
  moreover have "project_createdAt project = toISOString clock"
    by (simp add: project_def)
  ultimately show ?thesis
    using gp [of rest] g i nm dp po ge by (intro exI [of _ project]) blast
qed

text \<open>The example of the claim: \<^verbatim>\<open>{name: "Groceries"}\<close> on a fresh server, at time 0.\<close>

theorem createProject_then_getProject_witness:
  "createProject 0 (JObj [(''name'', JStr ''Groceries'')]) initial
     = (Inr (json (PProject example_project) 201),
        initial\<lparr>projects := [(''1'', example_project)], projectCounter := 2\<rparr>)
   \<and> res_status (json (PProject example_project) 201) = 201
   \<and> getProject [''1''] (initial\<lparr>projects := [(''1'', example_project)], projectCounter := 2\<rparr>)
       = json (PProject example_project) 200
   \<and> project_name example_project = ''Groceries''
   \<and> Date_parse (project_createdAt example_project) = Some 0"
proof -
  have c: "createProject 0 (JObj [(''name'', JStr ''Groceries'')]) initial
     = (Inr (json (PProject example_project) 201),
        initial\<lparr>projects := [(''1'', example_project)], projectCounter := 2\<rparr>)"
    by (simp add: createProject_def js_trim_Groceries toISOString_0 Number_toString_1
        initial_def example_project_def js_increment_def Let_def)
  have st: "res_status (json (PProject example_project) 201) = 201"
    by (simp add: json_def)
  from createProject_then_getProject [OF c st, of "[]" example_request example_signer
      example_request]
  obtain project where
    p: "json (PProject example_project) 201 = json (PProject project) 201"
    and g: "getProject [project_id project]
        (initial\<lparr>projects := [(''1'', example_project)], projectCounter := 2\<rparr>)
        = json (PProject project) 200"
    and d: "Date_parse (project_createdAt project) = Some 0"
    by auto
  from p have e: "project = example_project"
    by (simp add: json_def)
  have i: "project_id example_project = ''1''" "project_name example_project = ''Groceries''"
    by (simp_all add: example_project_def)
  from c st g d show ?thesis
    unfolding e i by simp
qed

section \<open>C9: the title of a todo is not validated on update\<close>

text \<open>  Claim C9. For every existing todo, an update whose body has a string \<^verbatim>\<open>title\<close> stores
  exactly that string as the title, the empty string and untrimmed strings included: the
  update neither trims the title nor checks that it is non-empty. Creation does both: with
  the same body it answers 400 when the trimmed title is empty, and otherwise stores the
  trimmed title.\<close>

theorem updateTodo_title_not_validated:
  assumes "Map_get (todos s) todoId = Some todo"
    and "get_prop body ''title'' = Some (JStr t)"
  shows "\<exists>updated.
      updateTodo (todoId # rest) body s
        = (json (PTodo updated) 200, s\<lparr>todos := Map_set (todos s) todoId updated\<rparr>)
    \<and> Map_get (todos (snd (updateTodo (todoId # rest) body s))) todoId = Some updated
    \<and> todo_title updated = t
    \<and> (Map_has (projects s) projectId \<longrightarrow> js_trim t = [] \<longrightarrow>
          createTodo clock (projectId # rest') body s
            = (Inr (plain ''Missing todo title'' 400), s))
    \<and> (\<forall>str. Map_has (projects s) projectId \<longrightarrow> js_trim t = str \<longrightarrow> str \<noteq> [] \<longrightarrow>
          (\<exists>created. fst (createTodo clock (projectId # rest') body s)
             = Inr (json (PTodo created) 201) \<and> todo_title created = str))"
proof (intro exI conjI)
  show "updateTodo (todoId # rest) body s
        = (json (PTodo (updated_todo todo body)) 200,
           s\<lparr>todos := Map_set (todos s) todoId (updated_todo todo body)\<rparr>)"
    by (rule updateTodo_found [OF assms(1)])
  show "Map_get (todos (snd (updateTodo (todoId # rest) body s))) todoId
        = Some (updated_todo todo body)"
    by (simp add: updateTodo_found [OF assms(1)] Map_get_set)
  show "todo_title (updated_todo todo body) = t"
    by (simp add: updated_todo_def assms(2) if_string_string)
  have str: "js_String (nullish (get_prop body ''title'') (JStr [])) = Inr t"
    by (simp add: assms(2))
  show "Map_has (projects s) projectId \<longrightarrow> js_trim t = [] \<longrightarrow>
          createTodo clock (projectId # rest') body s
            = (Inr (plain ''Missing todo title'' 400), s)"
    using createTodo_missing_title [OF _ str] by blast
  show "\<forall>str. Map_has (projects s) projectId \<longrightarrow> js_trim t = str \<longrightarrow> str \<noteq> [] \<longrightarrow>
          (\<exists>created. fst (createTodo clock (projectId # rest') body s)
             = Inr (json (PTodo created) 201) \<and> todo_title created = str)"
  proof (intro allI impI)
    fix str' assume h: "Map_has (projects s) projectId" "js_trim t = str'" "str' \<noteq> []"
    then have "js_trim t \<noteq> []" by simp
    from createTodo_created [OF h(1) str this, of clock rest']
    have "fst (createTodo clock (projectId # rest') body s)
        = Inr (json (PTodo (new_todo (Number_toString (todoCounter s)) projectId (js_trim t) body
             (toISOString clock))) 201)"
      by simp
    moreover have "todo_title (new_todo (Number_toString (todoCounter s)) projectId (js_trim t)
        body (toISOString clock)) = str'"
      using h(2) by (simp add: new_todo_def)
    ultimately show "\<exists>created. fst (createTodo clock (projectId # rest') body s)
             = Inr (json (PTodo created) 201) \<and> todo_title created = str'"
      by blast
  qed
qed

text \<open>An update with the empty title and one with a padded title, and the creation that
  the empty title fails.\<close>

theorem updateTodo_title_not_validated_witness:
  "Map_get (todos example_state) ''1'' = Some example_todo
   \<and> (\<exists>updated.
        Map_get (todos (snd (updateTodo [''1''] (JObj [(''title'', JStr [])]) example_state))) ''1''
          = Some updated
        \<and> todo_title updated = [])
   \<and> (\<exists>updated.
        Map_get (todos (snd (updateTodo [''1''] (JObj [(''title'', JStr ''  Tea '')])
          example_state))) ''1'' = Some updated
        \<and> todo_title updated = ''  Tea '')
   \<and> createTodo 0 [''1''] (JObj [(''title'', JStr [])]) example_state
       = (Inr (plain ''Missing todo title'' 400), example_state)"
proof -
  have h: "Map_get (todos example_state) ''1'' = Some example_todo"
    by (simp add: example_state_def Map_get_def)
  have p: "Map_has (projects example_state) ''1''"
    by (simp add: example_defs Map_has_def)
  have e: "get_prop (JObj [(''title'', JStr [])]) ''title'' = Some (JStr [])"
    by simp
  have t: "get_prop (JObj [(''title'', JStr ''  Tea '')]) ''title'' = Some (JStr ''  Tea '')"
    by simp
  from updateTodo_title_not_validated [OF h e, of "[]" "''1''" 0 "[]"] p
  have 1: "\<exists>updated.
        Map_get (todos (snd (updateTodo [''1''] (JObj [(''title'', JStr [])]) example_state))) ''1''
          = Some updated \<and> todo_title updated = []"
    and 3: "createTodo 0 [''1''] (JObj [(''title'', JStr [])]) example_state
       = (Inr (plain ''Missing todo title'' 400), example_state)"
    by (auto simp: js_trim_empty)
  from updateTodo_title_not_validated [OF h t, of "[]" "''1''" 0 "[]"]
  have 2: "\<exists>updated.
        Map_get (todos (snd (updateTodo [''1''] (JObj [(''title'', JStr ''  Tea '')])
          example_state))) ''1'' = Some updated \<and> todo_title updated = ''  Tea ''"
    by auto
  from h 1 2 3 show ?thesis by blast
qed

section \<open>C10: completed is coerced when a todo is created\<close>

text \<open>  Claim C10. When a todo is created, its completed field is the truthiness of the body's
  \<^verbatim>\<open>completed\<close>: false when the field is absent or null, the value itself for a
  boolean, and for any other value true unless it is falsy; a string gives true unless it
  is empty (so the strings \<^verbatim>\<open>"false"\<close> and \<^verbatim>\<open>"true"\<close> both give true), a number unless it
  is zero or NaN, an array or an object always. The object built by an update keeps the
  stored completed for every such non-boolean value.\<close>

theorem createTodo_completed_truthiness:
  assumes "Map_has (projects s) projectId"
    and "js_String (nullish (get_prop body ''title'') (JStr [])) = Inr str"
    and "js_trim str \<noteq> []"
  shows "\<exists>todo.
      createTodo clock (projectId # rest) body s
        = (Inr (json (PTodo todo) 201),
           s\<lparr>todos := Map_set (todos s) (Number_toString (todoCounter s)) todo,
             todoCounter := js_increment (todoCounter s)\<rparr>)
    \<and> (get_prop body ''completed'' = None \<longrightarrow> \<not> todo_completed todo)
    \<and> (\<forall>v. get_prop body ''completed'' = Some v \<longrightarrow> todo_completed todo = js_Boolean v)
    \<and> (\<forall>b. get_prop body ''completed'' = Some (JBool b) \<longrightarrow> todo_completed todo = b)
    \<and> (\<forall>t. get_prop body ''completed'' = Some (JStr t) \<longrightarrow> todo_completed todo = (t \<noteq> []))
    \<and> (\<forall>n. get_prop body ''completed'' = Some (JNum n)
          \<longrightarrow> todo_completed todo = (n \<noteq> ''0'' \<and> n \<noteq> ''NaN''))
    \<and> (\<forall>xs. get_prop body ''completed'' = Some (JArr xs) \<longrightarrow> todo_completed todo)
    \<and> (\<forall>kvs. get_prop body ''completed'' = Some (JObj kvs) \<longrightarrow> todo_completed todo)
    \<and> (get_prop body ''completed'' = Some JNull \<longrightarrow> \<not> todo_completed todo)
    \<and> (\<forall>old. (\<forall>b. get_prop body ''completed'' \<noteq> Some (JBool b))
          \<longrightarrow> todo_completed (updated_todo old body) = todo_completed old)"
proof (intro exI conjI)
  show "createTodo clock (projectId # rest) body s
        = (Inr (json (PTodo (new_todo (Number_toString (todoCounter s)) projectId (js_trim str)
                  body (toISOString clock))) 201),
           s\<lparr>todos := Map_set (todos s) (Number_toString (todoCounter s))
                  (new_todo (Number_toString (todoCounter s)) projectId (js_trim str) body
                     (toISOString clock)),
             todoCounter := js_increment (todoCounter s)\<rparr>)"
    by (rule createTodo_created [OF assms])
  show "\<forall>v. get_prop body ''completed'' = Some v \<longrightarrow>
      todo_completed (new_todo (Number_toString (todoCounter s)) projectId (js_trim str) body
        (toISOString clock)) = js_Boolean v"
  proof (intro allI impI)
    fix v assume "get_prop body ''completed'' = Some v"
    then show "todo_completed (new_todo (Number_toString (todoCounter s)) projectId (js_trim str)
        body (toISOString clock)) = js_Boolean v"
      by (cases v) (simp_all add: new_todo_def)
  qed
qed (simp_all add: new_todo_def updated_todo_def if_boolean_other)

text \<open>The string \<^verbatim>\<open>"false"\<close> creates a completed todo.\<close>

theorem createTodo_completed_truthiness_witness:
  "Map_has (projects example_state) ''1''
   \<and> (\<exists>todo. fst (createTodo 0 [''1'']
          (JObj [(''title'', JStr ''Eggs''), (''completed'', JStr ''false'')]) example_state)
          = Inr (json (PTodo todo) 201)
        \<and> todo_completed todo)"
proof -
  have h: "Map_has (projects example_state) ''1''"
    by (simp add: example_defs Map_has_def)
  have t: "js_String (nullish (get_prop
      (JObj [(''title'', JStr ''Eggs''), (''completed'', JStr ''false'')]) ''title'') (JStr []))
      = Inr ''Eggs''"
    by simp
  have n: "js_trim ''Eggs'' \<noteq> []"
    by (simp add: js_trim_def strip_leading.simps js_whitespace_def)
  from createTodo_completed_truthiness [OF h t n, of 0 "[]"]
  obtain todo where
    c: "createTodo 0 [''1'']
          (JObj [(''title'', JStr ''Eggs''), (''completed'', JStr ''false'')]) example_state
        = (Inr (json (PTodo todo) 201),
           example_state\<lparr>todos := Map_set (todos example_state)
                (Number_toString (todoCounter example_state)) todo,
             todoCounter := js_increment (todoCounter example_state)\<rparr>)"
    and s: "\<forall>t. get_prop (JObj [(''title'', JStr ''Eggs''), (''completed'', JStr ''false'')])
          ''completed'' = Some (JStr t) \<longrightarrow> todo_completed todo = (t \<noteq> [])"
    by blast
  from s have "todo_completed todo" by simp
  with c h show ?thesis by auto
qed

end
